theory Spec2Isabelle
  imports Complex_Main
begin

section \<open>Values\<close>

text \<open>
  A Python \<open>str\<close> is a sequence of Unicode code points; equality and the substring test
  \<open>in\<close> compare code points. The literals of \<open>core_excel.py\<close> that are not ASCII are
  written out as their code points.
\<close>

type_synonym pystr = "nat list"

definition ascii :: "string \<Rightarrow> pystr" where
  "ascii s = map of_char s"

text \<open>\<open>str(n)\<close> of a length, as the f-strings of the log messages format it.\<close>

fun str_nat :: "nat \<Rightarrow> pystr" where
  "str_nat n = (if n < 10 then [48 + n] else str_nat (n div 10) @ [48 + n mod 10])"

text \<open>A calendar date (year, month, day) and a time of day (nanoseconds since midnight).\<close>

type_synonym date = "nat \<times> nat \<times> nat"
type_synonym tod = nat

text \<open>
  What a cell of a sheet or of a DataFrame holds. \<open>Null\<close> stands for every missing value
  of pandas (\<open>None\<close>, \<open>NaN\<close>, \<open>NaT\<close>). The numbers are kept abstract (\<open>'n\<close>): the program
  never computes with them. \<open>DateTime d t\<close> is a timestamp: the date \<open>d\<close> at the time of
  day \<open>t\<close>; \<open>DateTime d 0\<close> is the date at 00:00:00.
\<close>

datatype 'n cell = Null | Str pystr | Num 'n | Bool bool | DateTime date tod

text \<open>
  The two conversions of pandas that the program relies on are parameters of the model:
  whether a value reads as a number (and as which), and whether a value reads as a
  timestamp (and as which) when the column it stands in is converted. \<open>pd.to_datetime\<close>
  converts a column as a whole, with a format it takes from the column, so the reading of
  a value depends on the column. Nothing is assumed about either.
\<close>

record 'n pandas =
  numeric_value :: "'n cell \<Rightarrow> 'n option"
  datetime_value :: "'n cell list \<Rightarrow> 'n cell \<Rightarrow> (date \<times> tod) option"

text \<open>
  \<open>pd.to_numeric(..., errors='coerce')\<close> on one value: a missing value stays missing, a
  number stays, the empty string is missing, and anything else is the number it reads as,
  or missing when it does not read as one.
\<close>

fun to_numeric_coerce :: "'n pandas \<Rightarrow> 'n cell \<Rightarrow> 'n cell" where
  "to_numeric_coerce lib Null = Null"
| "to_numeric_coerce lib (Num n) = Num n"
| "to_numeric_coerce lib (Str []) = Null"
| "to_numeric_coerce lib v = (case numeric_value lib v of Some n \<Rightarrow> Num n | None \<Rightarrow> Null)"

text \<open>
  \<open>pd.to_datetime(column, errors='coerce')\<close> at one value of the column: a missing value
  stays missing (\<open>NaT\<close>), and any other is the timestamp it reads as in this column, or
  missing when it does not read as one there.
\<close>

fun to_datetime_coerce :: "'n pandas \<Rightarrow> 'n cell list \<Rightarrow> 'n cell \<Rightarrow> 'n cell" where
  "to_datetime_coerce lib column Null = Null"
| "to_datetime_coerce lib column v =
     (case datetime_value lib column v of Some (d, t) \<Rightarrow> DateTime d t | None \<Rightarrow> Null)"

section \<open>Rows and columns\<close>

text \<open>
  A row of the processed frames, with the columns the program names
  (city group, customer name, item description, ship quantity, net weight, list price,
  tax rate, sign-off time). The backlog frame has one more column, the shipping
  organisation, until it is dropped.
\<close>

record 'n merged_row =
  region :: "'n cell"
  customer :: "'n cell"
  item_description :: "'n cell"
  ship_quantity :: "'n cell"
  net_weight :: "'n cell"
  list_price :: "'n cell"
  tax_rate :: "'n cell"
  signoff_date :: "'n cell"

record 'n delay_row = "'n merged_row" +
  organization_check :: "'n cell"

datatype colname =
  Region | Customer | ItemDescription | ShipQuantity | NetWeight | ListPrice | TaxRate
  | SignoffDate

fun get_col :: "colname \<Rightarrow> ('n, 'a) merged_row_scheme \<Rightarrow> 'n cell" where
  "get_col Region r = region r"
| "get_col Customer r = customer r"
| "get_col ItemDescription r = item_description r"
| "get_col ShipQuantity r = ship_quantity r"
| "get_col NetWeight r = net_weight r"
| "get_col ListPrice r = list_price r"
| "get_col TaxRate r = tax_rate r"
| "get_col SignoffDate r = signoff_date r"

fun set_col :: "colname \<Rightarrow> 'n cell \<Rightarrow> ('n, 'a) merged_row_scheme \<Rightarrow> ('n, 'a) merged_row_scheme" where
  "set_col Region v r = r\<lparr>region := v\<rparr>"
| "set_col Customer v r = r\<lparr>customer := v\<rparr>"
| "set_col ItemDescription v r = r\<lparr>item_description := v\<rparr>"
| "set_col ShipQuantity v r = r\<lparr>ship_quantity := v\<rparr>"
| "set_col NetWeight v r = r\<lparr>net_weight := v\<rparr>"
| "set_col ListPrice v r = r\<lparr>list_price := v\<rparr>"
| "set_col TaxRate v r = r\<lparr>tax_rate := v\<rparr>"
| "set_col SignoffDate v r = r\<lparr>signoff_date := v\<rparr>"

section \<open>The helper functions\<close>

text \<open>
  \<open>process_date_column\<close> (lines 14 to 31): convert the column to timestamps (what does not
  convert becomes missing), replace every valid timestamp by its date, and fill the
  missing ones with \<open>NaT\<close>. The dates of \<open>.dt.date\<close> are assigned back into the timestamp
  column, which stores each as a timestamp at 00:00:00.
\<close>

fun dt_date :: "'n cell \<Rightarrow> 'n cell" where
  "dt_date (DateTime d t) = DateTime d 0"
| "dt_date v = v"

fun fillna_nat :: "'n cell \<Rightarrow> 'n cell" where
  "fillna_nat Null = Null"
| "fillna_nat v = v"

definition process_date_column ::
  "'n pandas \<Rightarrow> ('n, 'a) merged_row_scheme list \<Rightarrow> colname \<Rightarrow> ('n, 'a) merged_row_scheme list" where
  "process_date_column lib df date_col_name =
     (let column = map (get_col date_col_name) df;
          df1 = map (\<lambda>r. set_col date_col_name
                             (to_datetime_coerce lib column (get_col date_col_name r)) r) df;
          df2 = map (\<lambda>r. if get_col date_col_name r \<noteq> Null
                           then set_col date_col_name (dt_date (get_col date_col_name r)) r
                           else r) df1;
          df3 = map (\<lambda>r. set_col date_col_name (fillna_nat (get_col date_col_name r)) r) df2
      in df3)"

text \<open>
  \<open>convert_numeric_columns\<close> (lines 35 to 45): for each named column in turn, replace the
  column by its numeric conversion. Every name of \<open>colname\<close> is a column of both frames,
  so the test \<open>col in df.columns\<close> holds.
\<close>

definition convert_numeric_columns ::
  "'n pandas \<Rightarrow> ('n, 'a) merged_row_scheme list \<Rightarrow> colname list \<Rightarrow> ('n, 'a) merged_row_scheme list" where
  "convert_numeric_columns lib df numeric_col_names =
     fold (\<lambda>col df. map (\<lambda>r. set_col col (to_numeric_coerce lib (get_col col r)) r) df)
       numeric_col_names df"

section \<open>Exceptions, files and the log\<close>

datatype exn =
  FileNotFoundError pystr | IndexError pystr | KeyError pystr | AttributeError pystr
  | OtherError pystr

text \<open>
  \<open>str(e)\<close>: the message, but for a \<open>KeyError\<close> the \<open>repr\<close> of its argument, which is
  quoted (in double quotes when the text holds a single quote and no double quote).
  Escapes inside the quoted text are not modelled.
\<close>

fun str_exn :: "exn \<Rightarrow> pystr" where
  "str_exn (FileNotFoundError m) = m"
| "str_exn (IndexError m) = m"
| "str_exn (AttributeError m) = m"
| "str_exn (OtherError m) = m"
| "str_exn (KeyError m) =
     (let q = (if 39 \<in> set m \<and> 34 \<notin> set m then 34 else 39) in [q] @ m @ [q])"

text \<open>A step that returns or raises, followed by the rest.\<close>

definition and_then :: "exn + 'a \<Rightarrow> ('a \<Rightarrow> exn + 'b) \<Rightarrow> exn + 'b" where
  "and_then r f = (case r of Inl e \<Rightarrow> Inl e | Inr x \<Rightarrow> f x)"

text \<open>A loop whose body may raise: the first exception ends it.\<close>

fun for_each :: "('a \<Rightarrow> 's \<Rightarrow> exn + 's) \<Rightarrow> 'a list \<Rightarrow> 's \<Rightarrow> exn + 's" where
  "for_each f [] s = Inr s"
| "for_each f (x # xs) s = (case f x s of Inl e \<Rightarrow> Inl e | Inr s' \<Rightarrow> for_each f xs s')"

text \<open>
  A sheet as \<open>pd.read_excel\<close> returns it: the number of columns and the data rows in
  order, each row giving the value at every column position (positions at or past
  \<open>ncols\<close> are never read).
\<close>

record 'n frame =
  ncols :: nat
  rows :: "(nat \<Rightarrow> 'n cell) list"

text \<open>
  A worksheet as openpyxl holds it: each cell has a value (a formula is a value, a
  string that starts with \<open>=\<close>) and a number format; \<open>ws.cell(row, column)\<close> of a cell
  that does not exist yet creates it. A cell inside a merged range, other than its top
  left cell, is a \<open>MergedCell\<close>, whose value cannot be assigned. \<open>max_row\<close> is the largest
  row that holds a cell.
\<close>

record 'n xcell =
  xvalue :: "'n cell"
  number_format :: pystr
  merged :: bool

record 'n worksheet =
  max_row :: nat
  cells :: "nat \<times> nat \<Rightarrow> 'n xcell"

type_synonym 'n workbook = "pystr \<Rightarrow> 'n worksheet option"

text \<open>
  Two functions of openpyxl are parameters of the model: which number formats it takes
  for date formats (\<open>is_date_format\<close>), and which values the value setter refuses, with
  the exception it raises (a string with an illegal character, a value of a type it cannot
  convert). Nothing is assumed about either.
\<close>

record 'n openpyxl =
  is_date_format :: "pystr \<Rightarrow> bool"
  cannot_store :: "'n cell \<Rightarrow> exn option"

text \<open>
  A file is what the two readers make of it: \<open>pd.ExcelFile\<close> with \<open>pd.read_excel\<close> (the
  sheets in workbook order, or the exception raised), and openpyxl's \<open>load_workbook\<close>
  (the workbook, or the exception raised).
\<close>

datatype 'n disk_file =
  File (excel_file: "exn + (pystr \<times> 'n frame) list") (load_workbook: "exn + 'n workbook")

type_synonym 'n filesystem = "pystr \<Rightarrow> 'n disk_file option"

text \<open>
  \<open>wb.save(save_path)\<close> is a parameter: given the workbook, the path and the file system
  it returns normally or raises, and leaves a file system. Nothing is assumed about it.
\<close>

type_synonym 'n saver = "'n workbook \<Rightarrow> pystr \<Rightarrow> 'n filesystem \<Rightarrow> (exn + unit) \<times> 'n filesystem"

text \<open>
  The log callback is a parameter too: given the messages it was called with so far and
  the message of this call, it returns normally (\<open>None\<close>) or raises. The default callback
  prints the message with a time stamp, and raises when the output stream cannot encode
  the message.
\<close>

type_synonym sink = "pystr list \<Rightarrow> pystr \<Rightarrow> exn option"

definition returns_normally :: "sink \<Rightarrow> bool" where
  "returns_normally sink = (\<forall>history msg. sink history msg = None)"

text \<open>
  What the function acts on: the file system, and the messages the log callback was
  called with, in order.
\<close>

record 'n world =
  files :: "'n filesystem"
  logged :: "pystr list"

text \<open>
  An action returns a value or raises an exception, and leaves a world. \<open>py_bind\<close> runs an
  action and then the rest, unless the action raised.
\<close>

type_synonym ('n, 'a) action = "'n world \<Rightarrow> (exn + 'a) \<times> 'n world"

definition py_return :: "'a \<Rightarrow> ('n, 'a) action" where
  "py_return x = (\<lambda>w. (Inr x, w))"

definition py_raise :: "exn \<Rightarrow> ('n, 'a) action" where
  "py_raise e = (\<lambda>w. (Inl e, w))"

definition py_lift :: "exn + 'a \<Rightarrow> ('n, 'a) action" where
  "py_lift r = (\<lambda>w. (r, w))"

definition py_bind :: "('n, 'a) action \<Rightarrow> ('a \<Rightarrow> ('n, 'b) action) \<Rightarrow> ('n, 'b) action" where
  "py_bind m f = (\<lambda>w. case m w of (Inl e, w') \<Rightarrow> (Inl e, w') | (Inr x, w') \<Rightarrow> f x w')"

definition log_callback :: "sink \<Rightarrow> pystr \<Rightarrow> ('n, unit) action" where
  "log_callback sink msg =
     (\<lambda>w. ((case sink (logged w) msg of None \<Rightarrow> Inr () | Some e \<Rightarrow> Inl e),
           w\<lparr>logged := logged w @ [msg]\<rparr>))"

definition wb_save :: "'n saver \<Rightarrow> 'n workbook \<Rightarrow> pystr \<Rightarrow> ('n, unit) action" where
  "wb_save save wb path =
     (\<lambda>w. case save wb path (files w) of (r, fs') \<Rightarrow> (r, w\<lparr>files := fs'\<rparr>))"

section \<open>The literals\<close>

definition target_region :: pystr where
  "target_region = [33311, 23665, 21306]"

definition ship_marker :: pystr where
  "ship_marker = [21457, 36135]"

definition delay_marker :: pystr where
  "delay_marker = [28382, 30041]"

definition target_sheet :: pystr where
  "target_sheet = [23425, 27874, 21457, 36135]"

definition empty_data_message :: pystr where
  "empty_data_message =
     [25968, 25454, 25991, 20214, 21512, 24182, 21518, 26080, 26377, 25928, 25968, 25454]"

definition failure_prefix :: pystr where
  "failure_prefix = [22788, 29702, 22833, 36133, 65306]"

definition template_missing_prefix :: pystr where
  "template_missing_prefix = [27169, 26495, 25991, 20214, 19981, 23384, 22312, 65306]"

definition data_missing_prefix :: pystr where
  "data_missing_prefix = [25968, 25454, 25991, 20214, 19981, 23384, 22312, 65306]"

definition sheet_missing_message :: pystr where
  "sheet_missing_message =
     [27169, 26495, 25991, 20214, 20013, 19981, 23384, 22312, 39, 23425, 27874, 21457,
      36135, 39, 24037, 20316, 34920]"

text \<open>The texts of the log messages (lines 78 to 204), as code points.\<close>

definition msg_start :: pystr where
  "msg_start =
     [24320, 22987, 35835, 21462, 25968, 25454, 25991, 20214, 65288, 25552, 21462,
      25968, 25454, 24182, 36716, 25442, 25968, 20540, 31867, 22411, 65289, 46, 46,
      46]"

definition msg_sheets_a :: pystr where
  "msg_sheets_a =
     [35782, 21035, 21040, 25968, 25454, 25991, 20214, 21457, 36135, 34920, 65306]"

definition msg_sheets_b :: pystr where
  "msg_sheets_b =
     [65292, 28382, 30041, 34920, 65306]"

definition msg_ship :: pystr where
  "msg_ship =
     [25552, 21462, 25968, 25454, 25991, 20214, 21457, 36135, 34920, 33311, 23665,
      21306, 25968, 25454, 24182, 36716, 25442, 25968, 20540, 31867, 22411, 46, 46,
      46]"

definition msg_date :: pystr where
  "msg_date =
     [36716, 25442, 21457, 36135, 34920, 31614, 25910, 20851, 21333, 26102, 38388,
      65288, 20165, 20445, 30041, 24180, 26376, 26085, 65292, 38544, 34255, 26102,
      20998, 31186, 65289, 46, 46, 46]"

definition msg_ship_rows_a :: pystr where
  "msg_ship_rows_a =
     [25968, 25454, 25991, 20214, 21457, 36135, 34920, 25552, 21462, 21040, 33311,
      23665, 21306, 25968, 25454, 32]"

definition msg_rows_b :: pystr where
  "msg_rows_b =
     [32, 34892]"

definition msg_delay :: pystr where
  "msg_delay =
     [25552, 21462, 25968, 25454, 25991, 20214, 28382, 30041, 34920, 33311, 23665,
      21306, 25968, 25454, 24182, 36716, 25442, 25968, 20540, 31867, 22411, 46, 46,
      46]"

definition msg_delay_rows_a :: pystr where
  "msg_delay_rows_a =
     [25968, 25454, 25991, 20214, 28382, 30041, 34920, 25552, 21462, 21040, 33311,
      23665, 21306, 25968, 25454, 32]"

definition msg_merge :: pystr where
  "msg_merge =
     [21512, 24182, 25968, 25454, 25991, 20214, 21457, 36135, 47, 28382, 30041,
      25968, 25454, 65288, 20165, 20445, 30041, 26085, 26399, 65292, 38544, 34255,
      26102, 20998, 31186, 65289, 46, 46, 46]"

definition msg_total_a :: pystr where
  "msg_total_a =
     [25968, 25454, 25991, 20214, 21512, 24182, 21518, 24635, 25968, 25454, 32]"

definition msg_empty :: pystr where
  "msg_empty =
     [35686, 21578, 65306, 25968, 25454, 25991, 20214, 21512, 24182, 21518, 26080,
      26377, 25928, 25968, 25454, 65281]"

definition msg_load :: pystr where
  "msg_load =
     [21152, 36733, 27169, 26495, 25991, 20214, 65288, 20445, 30041, 25152, 26377,
      21407, 22987, 26684, 24335, 65289, 46, 46, 46]"

definition msg_clean :: pystr where
  "msg_clean =
     [28165, 27927, 27169, 26495, 34920, 21407, 26377, 25968, 25454, 65288, 20165,
      28165, 31354, 25968, 20540, 65292, 20445, 30041, 26684, 24335, 21644, 20844,
      24335, 65289, 46, 46, 46]"

definition msg_fill :: pystr where
  "msg_fill =
     [22635, 20805, 25968, 25454, 25991, 20214, 26032, 25968, 25454, 21040, 27169,
      26495, 65288, 20165, 20445, 30041, 26085, 26399, 65292, 20860, 23481, 69,
      120, 99, 101, 108, 20844, 24335, 65289, 46, 46, 46]"

definition msg_done_a :: pystr where
  "msg_done_a =
     [22788, 29702, 23436, 25104, 65281, 27169, 26495, 34920, 21407, 26377, 25968,
      25454, 24050, 28165, 27927, 65292, 65, 83, 21015, 65288, 52, 53, 21015,
      65289, 20165, 20445, 30041, 26085, 26399, 37096, 20998, 65292, 20445, 23384,
      33267, 65306]"

definition msg_sheets :: "pystr \<Rightarrow> pystr \<Rightarrow> pystr" where
  "msg_sheets ship_sheet_name delay_sheet_name =
     msg_sheets_a @ ship_sheet_name @ msg_sheets_b @ delay_sheet_name"

definition msg_ship_rows :: "nat \<Rightarrow> pystr" where
  "msg_ship_rows n = msg_ship_rows_a @ str_nat n @ msg_rows_b"

definition msg_delay_rows :: "nat \<Rightarrow> pystr" where
  "msg_delay_rows n = msg_delay_rows_a @ str_nat n @ msg_rows_b"

definition msg_total :: "nat \<Rightarrow> pystr" where
  "msg_total n = msg_total_a @ str_nat n @ msg_rows_b"

definition msg_done :: "pystr \<Rightarrow> pystr" where
  "msg_done save_path = msg_done_a @ save_path"

section \<open>Reading and merging the data file\<close>

text \<open>The substring test \<open>sub in s\<close>.\<close>

fun py_in :: "pystr \<Rightarrow> pystr \<Rightarrow> bool" where
  "py_in sub [] = (sub = [])"
| "py_in sub (c # cs) = (take (length sub) (c # cs) = sub \<or> py_in sub cs)"

text \<open>\<open>[name for name in xl.sheet_names if marker in name][0]\<close> (lines 82 and 83).\<close>

definition first_match :: "pystr \<Rightarrow> pystr list \<Rightarrow> exn + pystr" where
  "first_match marker names =
     (case filter (py_in marker) names of
        [] \<Rightarrow> Inl (IndexError (ascii ''list index out of range''))
      | name # _ \<Rightarrow> Inr name)"

definition read_excel :: "(pystr \<times> 'n frame) list \<Rightarrow> pystr \<Rightarrow> exn + 'n frame" where
  "read_excel sheets name =
     (case map_of sheets name of
        None \<Rightarrow> Inl (OtherError (ascii ''Worksheet not found''))
      | Some df \<Rightarrow> Inr df)"

definition out_of_bounds :: exn where
  "out_of_bounds = IndexError (ascii ''single positional indexer is out-of-bounds'')"

text \<open>
  Lines 91 to 101: the shipment columns by position. \<open>df.iloc[:, j]\<close> raises when the
  frame has no column \<open>j\<close>.
\<close>

definition ship_cols :: "'n frame \<Rightarrow> exn + 'n merged_row list" where
  "ship_cols df_ship =
     (if list_all (\<lambda>j. j < ncols df_ship) [3, 7, 15, 21, 24, 26, 43, 28]
      then Inr (map (\<lambda>r. \<lparr>region = r 3, customer = r 7, item_description = r 15,
                          ship_quantity = r 21, net_weight = r 24, list_price = r 26,
                          tax_rate = r 43, signoff_date = r 28\<rparr>) (rows df_ship))
      else Inl out_of_bounds)"

text \<open>
  Lines 119 to 130: the backlog columns by position; the sign-off column is an empty
  series, so every row has it missing.
\<close>

definition delay_cols :: "'n frame \<Rightarrow> exn + 'n delay_row list" where
  "delay_cols df_delay =
     (if list_all (\<lambda>j. j < ncols df_delay) [3, 5, 18, 27, 30, 33, 55, 26]
      then Inr (map (\<lambda>r. \<lparr>region = r 3, customer = r 5, item_description = r 18,
                          ship_quantity = r 27, net_weight = r 30, list_price = r 33,
                          tax_rate = r 55, signoff_date = Null,
                          organization_check = r 26\<rparr>) (rows df_delay))
      else Inl out_of_bounds)"

definition numeric_cols :: "colname list" where
  "numeric_cols = [ShipQuantity, NetWeight, ListPrice, TaxRate]"

text \<open>Lines 101 to 112: the processed shipment frame, filtered by region.\<close>

definition ship_zhoushan :: "'n pandas \<Rightarrow> 'n frame \<Rightarrow> exn + 'n merged_row list" where
  "ship_zhoushan lib df_ship =
     (case ship_cols df_ship of
        Inl e \<Rightarrow> Inl e
      | Inr df \<Rightarrow>
          (let df1 = convert_numeric_columns lib df numeric_cols;
               df2 = process_date_column lib df1 SignoffDate
           in Inr (filter (\<lambda>r. region r = Str target_region) df2)))"

text \<open>
  Lines 130 to 144: the processed backlog frame, its sign-off column set to \<open>None\<close>,
  filtered by region and by the shipping organisation, which is then dropped.
\<close>

definition delay_zhoushan :: "'n pandas \<Rightarrow> 'n frame \<Rightarrow> exn + 'n merged_row list" where
  "delay_zhoushan lib df_delay =
     (case delay_cols df_delay of
        Inl e \<Rightarrow> Inl e
      | Inr df \<Rightarrow>
          (let df1 = convert_numeric_columns lib df numeric_cols;
               df2 = map (\<lambda>r. r\<lparr>signoff_date := Null\<rparr>) df1;
               df3 = filter (\<lambda>r. region r = Str target_region
                                  \<and> organization_check r \<noteq> Null
                                  \<and> organization_check r \<noteq> Str []) df2
           in Inr (map merged_row.truncate df3)))"

text \<open>\<open>dropna(how='all')\<close>: a row goes when every one of its columns is missing.\<close>

definition all_columns :: "colname list" where
  "all_columns =
     [Region, Customer, ItemDescription, ShipQuantity, NetWeight, ListPrice, TaxRate,
      SignoffDate]"

definition all_null :: "'n merged_row \<Rightarrow> bool" where
  "all_null r = list_all (\<lambda>c. get_col c r = Null) all_columns"

definition dropna_all :: "'n merged_row list \<Rightarrow> 'n merged_row list" where
  "dropna_all df = filter (\<lambda>r. \<not> all_null r) df"

text \<open>
  Lines 81 to 150, the log calls taken out: the merged frame as a function of the data
  file.
\<close>

definition combined :: "'n pandas \<Rightarrow> 'n disk_file \<Rightarrow> exn + 'n merged_row list" where
  "combined lib data =
     (case excel_file data of
        Inl e \<Rightarrow> Inl e
      | Inr xl \<Rightarrow>
     (case first_match ship_marker (map fst xl) of
        Inl e \<Rightarrow> Inl e
      | Inr ship_sheet_name \<Rightarrow>
     (case first_match delay_marker (map fst xl) of
        Inl e \<Rightarrow> Inl e
      | Inr delay_sheet_name \<Rightarrow>
     (case read_excel xl ship_sheet_name of
        Inl e \<Rightarrow> Inl e
      | Inr df_ship \<Rightarrow>
     (case ship_zhoushan lib df_ship of
        Inl e \<Rightarrow> Inl e
      | Inr df_ship_zhoushan \<Rightarrow>
     (case read_excel xl delay_sheet_name of
        Inl e \<Rightarrow> Inl e
      | Inr df_delay \<Rightarrow>
     (case delay_zhoushan lib df_delay of
        Inl e \<Rightarrow> Inl e
      | Inr df_delay_zhoushan \<Rightarrow>
          Inr (dropna_all (df_ship_zhoushan @ df_delay_zhoushan)))))))))"

text \<open>
  Lines 78 to 151 as the program runs them, log calls included: each call of the log
  callback may raise, and ends the reading when it does.
\<close>

definition df_combined_of :: "sink \<Rightarrow> 'n pandas \<Rightarrow> 'n disk_file \<Rightarrow> ('n, 'n merged_row list) action" where
  "df_combined_of sink lib data =
     py_bind (log_callback sink msg_start) (\<lambda>u.
     py_bind (py_lift (excel_file data)) (\<lambda>xl.
     py_bind (py_lift (first_match ship_marker (map fst xl))) (\<lambda>ship_sheet_name.
     py_bind (py_lift (first_match delay_marker (map fst xl))) (\<lambda>delay_sheet_name.
     py_bind (log_callback sink (msg_sheets ship_sheet_name delay_sheet_name)) (\<lambda>u.
     py_bind (log_callback sink msg_ship) (\<lambda>u.
     py_bind (py_lift (read_excel xl ship_sheet_name)) (\<lambda>df_ship.
     py_bind (py_lift (ship_cols df_ship)) (\<lambda>df_ship_processed.
     let df_ship_processed = convert_numeric_columns lib df_ship_processed numeric_cols in
     py_bind (log_callback sink msg_date) (\<lambda>u.
     let df_ship_processed = process_date_column lib df_ship_processed SignoffDate;
         df_ship_zhoushan = filter (\<lambda>r. region r = Str target_region) df_ship_processed in
     py_bind (log_callback sink (msg_ship_rows (length df_ship_zhoushan))) (\<lambda>u.
     py_bind (log_callback sink msg_delay) (\<lambda>u.
     py_bind (py_lift (read_excel xl delay_sheet_name)) (\<lambda>df_delay.
     py_bind (py_lift (delay_cols df_delay)) (\<lambda>df_delay_processed.
     let df_delay_processed = convert_numeric_columns lib df_delay_processed numeric_cols;
         df_delay_processed = map (\<lambda>r. r\<lparr>signoff_date := Null\<rparr>) df_delay_processed;
         df_delay_zhoushan = filter (\<lambda>r. region r = Str target_region
                                           \<and> organization_check r \<noteq> Null
                                           \<and> organization_check r \<noteq> Str []) df_delay_processed;
         df_delay_zhoushan = map merged_row.truncate df_delay_zhoushan in
     py_bind (log_callback sink (msg_delay_rows (length df_delay_zhoushan))) (\<lambda>u.
     py_bind (log_callback sink msg_merge) (\<lambda>u.
     let df_combined = dropna_all (df_ship_zhoushan @ df_delay_zhoushan) in
     py_bind (log_callback sink (msg_total (length df_combined))) (\<lambda>u.
     py_return df_combined))))))))))))))))"

section \<open>Writing the template\<close>

text \<open>
  \<open>ws.cell(row, column).value = v\<close>. Assigning to a \<open>MergedCell\<close> raises. On any other
  cell the value setter of openpyxl raises when it cannot store the value (\<open>None\<close> it
  always can), and otherwise stores it; when the value is a date or time and the cell's
  number format is not a date format, it also sets the number format to the ISO format
  \<open>yyyy-mm-dd h:mm:ss\<close>. A missing value is stored as \<open>None\<close> is: the format stays.
\<close>

definition read_only_message :: pystr where
  "read_only_message =
     [39] @ ascii ''MergedCell'' @ [39] @ ascii '' object attribute '' @ [39] @ ascii ''value''
       @ [39] @ ascii '' is read-only''"

definition iso_datetime_format :: pystr where
  "iso_datetime_format = ascii ''yyyy-mm-dd h:mm:ss''"

fun is_time_value :: "'n cell \<Rightarrow> bool" where
  "is_time_value (DateTime d t) = True"
| "is_time_value v = False"

definition bind_value :: "'n openpyxl \<Rightarrow> 'n xcell \<Rightarrow> 'n cell \<Rightarrow> 'n xcell" where
  "bind_value ox old v =
     old\<lparr>xvalue := v,
         number_format :=
           (if is_time_value v \<and> \<not> is_date_format ox (number_format old)
            then iso_datetime_format else number_format old)\<rparr>"

definition set_value ::
  "'n openpyxl \<Rightarrow> 'n worksheet \<Rightarrow> nat \<Rightarrow> nat \<Rightarrow> 'n cell \<Rightarrow> exn + 'n worksheet" where
  "set_value ox ws r c v =
     (if merged (cells ws (r, c)) then Inl (AttributeError read_only_message)
      else case (if v = Null then None else cannot_store ox v) of
             Some e \<Rightarrow> Inl e
           | None \<Rightarrow>
               Inr (ws\<lparr>max_row := max (max_row ws) r,
                       cells := (cells ws)((r, c) := bind_value ox (cells ws (r, c)) v)\<rparr>))"

text \<open>
  \<open>ws.cell(row, column).number_format = f\<close>. The program assigns a format only to a cell
  whose value it has just assigned, so the cell is no \<open>MergedCell\<close>.
\<close>

definition set_number_format :: "'n worksheet \<Rightarrow> nat \<Rightarrow> nat \<Rightarrow> pystr \<Rightarrow> 'n worksheet" where
  "set_number_format ws r c f =
     ws\<lparr>max_row := max (max_row ws) r,
        cells := (cells ws)((r, c) := (cells ws (r, c))\<lparr>number_format := f\<rparr>)\<rparr>"

definition clean_columns :: "nat list" where
  "clean_columns = [4, 8, 15, 21, 24, 26, 43, 45]"

text \<open>Lines 166 to 171: rows 2 to \<open>max_row\<close>, read once before the loop.\<close>

definition clean_template :: "'n openpyxl \<Rightarrow> 'n worksheet \<Rightarrow> exn + 'n worksheet" where
  "clean_template ox ws =
     (let m = max_row ws
      in for_each (\<lambda>row ws. for_each (\<lambda>col ws. set_value ox ws row col Null) clean_columns ws)
           [2 ..< m + 1] ws)"

text \<open>Lines 179 to 198: one merged row into one sheet row.\<close>

definition write_row ::
  "'n openpyxl \<Rightarrow> 'n worksheet \<Rightarrow> nat \<Rightarrow> 'n merged_row \<Rightarrow> exn + 'n worksheet" where
  "write_row ox ws current_row row =
     and_then (set_value ox ws current_row 4 (region row)) (\<lambda>ws.
     and_then (set_value ox ws current_row 8 (customer row)) (\<lambda>ws.
     and_then (set_value ox ws current_row 15 (item_description row)) (\<lambda>ws.
     and_then (set_value ox ws current_row 21 (ship_quantity row)) (\<lambda>ws.
     let ws = set_number_format ws current_row 21 (ascii ''0.00'') in
     and_then (set_value ox ws current_row 24 (net_weight row)) (\<lambda>ws.
     let ws = set_number_format ws current_row 24 (ascii ''0.000'') in
     and_then (set_value ox ws current_row 26 (list_price row)) (\<lambda>ws.
     let ws = set_number_format ws current_row 26 (ascii ''0.00'') in
     and_then (set_value ox ws current_row 43 (tax_rate row)) (\<lambda>ws.
     let ws = set_number_format ws current_row 43 (ascii ''0.00%'') in
     and_then (set_value ox ws current_row 45 (signoff_date row)) (\<lambda>ws.
     let ws = set_number_format ws current_row 45 (ascii ''yyyy/mm/dd'') in
     Inr ws))))))))"

definition start_row :: nat where
  "start_row = 2"

text \<open>Lines 175 to 198: \<open>for idx, (_, row) in enumerate(df_combined.iterrows())\<close>.\<close>

definition fill_template ::
  "'n openpyxl \<Rightarrow> 'n worksheet \<Rightarrow> 'n merged_row list \<Rightarrow> exn + 'n worksheet" where
  "fill_template ox ws df_combined =
     for_each (\<lambda>(idx, row) ws. write_row ox ws (start_row + idx) row)
       (enumerate 0 df_combined) ws"

section \<open>The core function\<close>

text \<open>
  The body of the \<open>try\<close> block (lines 72 to 205): the value returned or the exception
  raised, and the world left. \<open>os.path.exists\<close> is the domain of the file system. Only
  \<open>wb.save\<close> touches the file system (\<open>wb.close\<close> does not), so the template that line 159
  loads is the file that line 73 found.
\<close>

definition process_excel_try ::
  "sink \<Rightarrow> 'n pandas \<Rightarrow> 'n openpyxl \<Rightarrow> 'n saver \<Rightarrow> pystr \<Rightarrow> pystr \<Rightarrow> pystr
     \<Rightarrow> ('n, bool \<times> pystr option) action" where
  "process_excel_try sink lib ox save template_path data_path save_path =
     (\<lambda>w.
     (case files w template_path of
        None \<Rightarrow> py_raise (FileNotFoundError (template_missing_prefix @ template_path)) w
      | Some template \<Rightarrow>
     (case files w data_path of
        None \<Rightarrow> py_raise (FileNotFoundError (data_missing_prefix @ data_path)) w
      | Some data \<Rightarrow>
          py_bind (df_combined_of sink lib data) (\<lambda>df_combined.
          if length df_combined = 0
          then py_bind (log_callback sink msg_empty) (\<lambda>u.
               py_return (False, Some empty_data_message))
          else py_bind (log_callback sink msg_load) (\<lambda>u.
               py_bind (py_lift (load_workbook template)) (\<lambda>wb.
               case wb target_sheet of
                 None \<Rightarrow> py_raise (KeyError sheet_missing_message)
               | Some ws \<Rightarrow>
                   py_bind (log_callback sink msg_clean) (\<lambda>u.
                   py_bind (py_lift (clean_template ox ws)) (\<lambda>ws.
                   py_bind (log_callback sink msg_fill) (\<lambda>u.
                   py_bind (py_lift (fill_template ox ws df_combined)) (\<lambda>ws.
                   py_bind (wb_save save (wb(target_sheet \<mapsto> ws)) save_path) (\<lambda>u.
                   py_bind (log_callback sink (msg_done save_path)) (\<lambda>u.
                   py_return (True, None)))))))))) w)))"

text \<open>
  The whole function (lines 71 and 207 to 210). An exception of the body is caught: the
  handler builds the failure message, calls the log callback with it, and returns the
  failure. The call of the log callback in the handler is not protected: when it raises,
  the exception leaves the function (\<open>Inl\<close>).
\<close>

definition process_excel_core ::
  "sink \<Rightarrow> 'n pandas \<Rightarrow> 'n openpyxl \<Rightarrow> 'n saver \<Rightarrow> pystr \<Rightarrow> pystr \<Rightarrow> pystr
     \<Rightarrow> ('n, bool \<times> pystr option) action" where
  "process_excel_core sink lib ox save template_path data_path save_path =
     (\<lambda>w.
     (case process_excel_try sink lib ox save template_path data_path save_path w of
        (Inr result, w') \<Rightarrow> (Inr result, w')
      | (Inl e, w') \<Rightarrow>
          (let error_msg = failure_prefix @ str_exn e
           in py_bind (log_callback sink error_msg) (\<lambda>u.
              py_return (False, Some error_msg)) w')))"

section \<open>Row-wise and cell-wise readings\<close>

text \<open>
  The frames above are processed column by column, as the program does. The statements
  below read the result row by row: what one source row of the shipment sheet (given the
  sign-off column it stands in), and one of the backlog sheet, becomes. The lemmas
  \<open>ship_zhoushan_rows\<close> and \<open>delay_zhoushan_rows\<close> prove that the column-wise processing
  computes exactly these rows.
\<close>

definition ship_row_of :: "'n pandas \<Rightarrow> 'n cell list \<Rightarrow> (nat \<Rightarrow> 'n cell) \<Rightarrow> 'n merged_row" where
  "ship_row_of lib column raw =
     \<lparr>region = raw 3, customer = raw 7, item_description = raw 15,
      ship_quantity = to_numeric_coerce lib (raw 21),
      net_weight = to_numeric_coerce lib (raw 24),
      list_price = to_numeric_coerce lib (raw 26),
      tax_rate = to_numeric_coerce lib (raw 43),
      signoff_date = dt_date (to_datetime_coerce lib column (raw 28))\<rparr>"

definition delay_row_of :: "'n pandas \<Rightarrow> (nat \<Rightarrow> 'n cell) \<Rightarrow> 'n merged_row" where
  "delay_row_of lib raw =
     \<lparr>region = raw 3, customer = raw 5, item_description = raw 18,
      ship_quantity = to_numeric_coerce lib (raw 27),
      net_weight = to_numeric_coerce lib (raw 30),
      list_price = to_numeric_coerce lib (raw 33),
      tax_rate = to_numeric_coerce lib (raw 55),
      signoff_date = Null\<rparr>"

text \<open>
  What \<open>write_row\<close> leaves in the cell of column \<open>c\<close> of the row it writes: the value
  setter's result, and for the five formatted columns the format assigned after it.
\<close>

definition written_cell :: "'n openpyxl \<Rightarrow> 'n merged_row \<Rightarrow> nat \<Rightarrow> 'n xcell \<Rightarrow> 'n xcell" where
  "written_cell ox row c old =
     (if c = 4 then bind_value ox old (region row)
      else if c = 8 then bind_value ox old (customer row)
      else if c = 15 then bind_value ox old (item_description row)
      else if c = 21 then (bind_value ox old (ship_quantity row))\<lparr>number_format := ascii ''0.00''\<rparr>
      else if c = 24 then (bind_value ox old (net_weight row))\<lparr>number_format := ascii ''0.000''\<rparr>
      else if c = 26 then (bind_value ox old (list_price row))\<lparr>number_format := ascii ''0.00''\<rparr>
      else if c = 43 then (bind_value ox old (tax_rate row))\<lparr>number_format := ascii ''0.00%''\<rparr>
      else if c = 45 then (bind_value ox old (signoff_date row))\<lparr>number_format := ascii ''yyyy/mm/dd''\<rparr>
      else old)"

text \<open>
  Conditions under which no cell assignment raises: the sheet has no merged cell, and
  openpyxl stores every value.
\<close>

definition unmerged :: "'n worksheet \<Rightarrow> bool" where
  "unmerged ws = (\<forall>p. \<not> merged (cells ws p))"

definition stores_all :: "'n openpyxl \<Rightarrow> bool" where
  "stores_all ox = (\<forall>v. cannot_store ox v = None)"

text \<open>
  An action that leaves the file system as it is, and whose value, when it returns one,
  satisfies \<open>P\<close>.
\<close>

definition reads_only :: "('n, 'a) action \<Rightarrow> ('a \<Rightarrow> bool) \<Rightarrow> bool" where
  "reads_only m P =
     (\<forall>w. files (snd (m w)) = files w \<and> (\<forall>x. fst (m w) = Inr x \<longrightarrow> P x))"

section \<open>A worked example\<close>

text \<open>
  The example of the specification: a data file whose shipment sheet has a row of the
  target region with quantity \<open>10.5\<close> and sign-off time \<open>2024-01-02 08:00:00\<close> (and a row
  of another region), and whose backlog sheet has a row of the target region with an
  empty organisation, one with an organisation, and one of another region. The numbers
  are rationals here.

  The example library reads two date formats. As \<open>pd.to_datetime\<close> does, it takes the
  format of a column from the first value of the column that has one, and reads with it:
  a value in the other format is not read.
\<close>

fun ex_format :: "rat cell \<Rightarrow> nat" where
  "ex_format (Str s) =
     (if s = ascii ''2024-01-02 08:00:00'' then 1 else if s = ascii ''01/03/2024'' then 2 else 0)"
| "ex_format v = 0"

fun ex_stamp :: "rat cell \<Rightarrow> (date \<times> tod) option" where
  "ex_stamp (Str s) =
     (if s = ascii ''2024-01-02 08:00:00'' then Some ((2024, 1, 2), 28800000000000)
      else if s = ascii ''01/03/2024'' then Some ((2024, 1, 3), 0) else None)"
| "ex_stamp v = None"

definition ex_lib :: "rat pandas" where
  "ex_lib =
     \<lparr>numeric_value = (\<lambda>v. if v = Str (ascii ''10.5'') then Some (21 / 2) else None),
      datetime_value =
        (\<lambda>column v. case List.find (\<lambda>x. ex_format x \<noteq> 0) column of
                       None \<Rightarrow> None
                     | Some x \<Rightarrow> if ex_format v = ex_format x then ex_stamp v else None)\<rparr>"

text \<open>
  The example openpyxl takes two formats for date formats and stores every value.
\<close>

definition ex_ox :: "rat openpyxl" where
  "ex_ox =
     \<lparr>is_date_format = (\<lambda>f. f = ascii ''yyyy/mm/dd'' \<or> f = iso_datetime_format),
      cannot_store = (\<lambda>v. None)\<rparr>"

text \<open>
  Two log callbacks: one that returns normally on every message, and the default one
  (\<open>print\<close>) on an output stream that encodes ASCII only, which raises on a message with
  any other character.
\<close>

definition ex_sink_quiet :: sink where
  "ex_sink_quiet = (\<lambda>history msg. None)"

definition ex_encode_error :: exn where
  "ex_encode_error = OtherError (ascii ''ascii codec cannot encode characters'')"

definition ex_sink_ascii :: sink where
  "ex_sink_ascii = (\<lambda>history msg. if list_ex (\<lambda>c. 127 < c) msg then Some ex_encode_error else None)"

text \<open>A log callback that raises on the completion message of line 204 only.\<close>

definition ex_sink_done :: sink where
  "ex_sink_done =
     (\<lambda>history msg. if take 4 msg = take 4 msg_done_a then Some ex_encode_error else None)"

definition ex_ship_name :: pystr where
  "ex_ship_name = [21457, 36135, 26126, 32454]"

definition ex_ship_sheet :: "rat frame" where
  "ex_ship_sheet =
     \<lparr>ncols = 44,
      rows =
        [\<lambda>j. if j = 3 then Str target_region else if j = 7 then Str (ascii ''A'')
              else if j = 21 then Str (ascii ''10.5'') else if j = 24 then Str []
              else if j = 26 then Str (ascii ''n/a'')
              else if j = 28 then Str (ascii ''2024-01-02 08:00:00'') else Null,
         \<lambda>j. if j = 3 then Str (ascii ''Ningbo'') else if j = 7 then Str (ascii ''B'')
              else Null]\<rparr>"

definition ex_delay_sheet :: "rat frame" where
  "ex_delay_sheet =
     \<lparr>ncols = 56,
      rows =
        [\<lambda>j. if j = 3 then Str target_region else if j = 5 then Str (ascii ''C'')
              else if j = 26 then Str [] else Null,
         \<lambda>j. if j = 3 then Str target_region else if j = 5 then Str (ascii ''D'')
              else if j = 26 then Str (ascii ''ORG'') else Null,
         \<lambda>j. if j = 3 then Str (ascii ''Ningbo'') else if j = 5 then Str (ascii ''E'')
              else if j = 26 then Str (ascii ''ORG'') else Null]\<rparr>"

definition ex_data :: "rat disk_file" where
  "ex_data =
     File (Inr [(ex_ship_name, ex_ship_sheet), (delay_marker, ex_delay_sheet)])
          (Inr (\<lambda>name. None))"

text \<open>The two rows the example merges to.\<close>

definition ex_row_a :: "rat merged_row" where
  "ex_row_a =
     \<lparr>region = Str target_region, customer = Str (ascii ''A''), item_description = Null,
      ship_quantity = Num (21 / 2), net_weight = Null, list_price = Null, tax_rate = Null,
      signoff_date = DateTime (2024, 1, 2) 0\<rparr>"

definition ex_row_d :: "rat merged_row" where
  "ex_row_d =
     \<lparr>region = Str target_region, customer = Str (ascii ''D''), item_description = Null,
      ship_quantity = Null, net_weight = Null, list_price = Null, tax_rate = Null,
      signoff_date = Null\<rparr>"


text \<open>
  A data file whose one shipment row has a date and time in the customer column, and
  the row it merges to.
\<close>

definition ex_data_dated :: "rat disk_file" where
  "ex_data_dated =
     File (Inr [(ex_ship_name,
                 \<lparr>ncols = 44,
                  rows = [\<lambda>j. if j = 3 then Str target_region
                               else if j = 7 then DateTime (2024, 1, 2) 28800000000000
                               else Null]\<rparr>),
                (delay_marker, \<lparr>ncols = 56, rows = []\<rparr>)])
          (Inr (\<lambda>name. None))"

definition ex_row_t :: "rat merged_row" where
  "ex_row_t =
     \<lparr>region = Str target_region, customer = DateTime (2024, 1, 2) 28800000000000,
      item_description = Null, ship_quantity = Null, net_weight = Null, list_price = Null,
      tax_rate = Null, signoff_date = Null\<rparr>"

text \<open>
  Two shipment rows whose sign-off values are in different formats: the first in the
  format of the column, the second in the other format.
\<close>

definition ex_signoff_rows :: "rat merged_row list" where
  "ex_signoff_rows =
     [\<lparr>region = Str target_region, customer = Str (ascii ''A''), item_description = Null,
       ship_quantity = Num (21 / 2), net_weight = Null, list_price = Null, tax_rate = Null,
       signoff_date = Str (ascii ''2024-01-02 08:00:00'')\<rparr>,
      \<lparr>region = Str target_region, customer = Str (ascii ''B''), item_description = Null,
       ship_quantity = Null, net_weight = Null, list_price = Null, tax_rate = Null,
       signoff_date = Str (ascii ''01/03/2024'')\<rparr>]"

text \<open>
  A template whose target sheet has four rows: a header row, old data in every column,
  and a formula in column 5; no cell is merged. And a template without the target sheet.
\<close>

definition ex_template_sheet :: "rat worksheet" where
  "ex_template_sheet =
     \<lparr>max_row = 4,
      cells = (\<lambda>(r, c). \<lparr>xvalue = (if r = 1 then Str (ascii ''header'')
                                     else if c = 5 then Str (ascii ''=D2'')
                                     else Str (ascii ''old'')),
                          number_format = ascii ''General'',
                          merged = False\<rparr>)\<rparr>"

definition ex_workbook :: "rat workbook" where
  "ex_workbook = (\<lambda>name. if name = target_sheet then Some ex_template_sheet else None)"

definition ex_template :: "rat disk_file" where
  "ex_template = File (Inr []) (Inr ex_workbook)"


definition ex_template_path :: pystr where
  "ex_template_path = ascii ''template.xlsx''"

definition ex_data_path :: pystr where
  "ex_data_path = ascii ''data.xlsx''"

definition ex_save_path :: pystr where
  "ex_save_path = ascii ''out.xlsx''"

definition ex_fs :: "rat disk_file \<Rightarrow> rat disk_file \<Rightarrow> rat filesystem" where
  "ex_fs template data =
     (\<lambda>p. if p = ex_template_path then Some template
          else if p = ex_data_path then Some data else None)"

definition ex_world :: "rat disk_file \<Rightarrow> rat disk_file \<Rightarrow> rat world" where
  "ex_world template data = \<lparr>files = ex_fs template data, logged = []\<rparr>"

text \<open>
  Two behaviours of \<open>wb.save\<close>: one writes the workbook and returns; the other creates the
  file, fails while writing it and raises, leaving a file no reader can open.
\<close>

definition ex_save_ok :: "rat saver" where
  "ex_save_ok wb path fs = (Inr (), fs(path \<mapsto> File (Inr []) (Inr wb)))"

definition ex_truncated :: "rat disk_file" where
  "ex_truncated =
     File (Inl (OtherError (ascii ''File is not a zip file'')))
          (Inl (OtherError (ascii ''File is not a zip file'')))"

definition ex_save_partial :: "rat saver" where
  "ex_save_partial wb path fs =
     (Inl (OtherError (ascii ''No space left on device'')), fs(path \<mapsto> ex_truncated))"

section \<open>Lemmas on the data pipeline\<close>

lemma convert_numeric_cols_rows:
  "convert_numeric_columns lib df numeric_cols =
     map (\<lambda>r. r\<lparr>ship_quantity := to_numeric_coerce lib (ship_quantity r),
                net_weight := to_numeric_coerce lib (net_weight r),
                list_price := to_numeric_coerce lib (list_price r),
                tax_rate := to_numeric_coerce lib (tax_rate r)\<rparr>) df"
  by (simp add: convert_numeric_columns_def numeric_cols_def comp_def)

lemma fillna_nat_id: "fillna_nat v = v"
  by (cases v) simp_all

lemma get_col_SignoffDate: "get_col SignoffDate = signoff_date"
  by (rule ext) simp

lemma process_date_column_rows:
  "process_date_column lib df SignoffDate =
     map (\<lambda>r. r\<lparr>signoff_date :=
                  dt_date (to_datetime_coerce lib (map signoff_date df) (signoff_date r))\<rparr>) df"
  by (auto simp: process_date_column_def Let_def comp_def fillna_nat_id get_col_SignoffDate)

lemma ship_zhoushan_rows:
  "ship_zhoushan lib df = Inr S \<Longrightarrow>
     S = map (ship_row_of lib (map (\<lambda>raw. raw 28) (rows df)))
           (filter (\<lambda>raw. raw 3 = Str target_region) (rows df))"
  by (auto simp: ship_zhoushan_def ship_cols_def convert_numeric_cols_rows
        process_date_column_rows Let_def filter_map comp_def ship_row_of_def
      split: if_splits)

lemma delay_zhoushan_rows:
  "delay_zhoushan lib df = Inr D \<Longrightarrow>
     D = map (delay_row_of lib)
           (filter (\<lambda>raw. raw 3 = Str target_region \<and> raw 26 \<noteq> Null \<and> raw 26 \<noteq> Str [])
              (rows df))"
  by (auto simp: delay_zhoushan_def delay_cols_def convert_numeric_cols_rows
        Let_def filter_map comp_def delay_row_of_def merged_row.truncate_def
        merged_row.defs delay_row.defs
      split: if_splits)

lemma combined_InrD:
  assumes "combined lib data = Inr df"
  shows "\<exists>xl ship_name delay_name df_ship df_delay S D.
           excel_file data = Inr xl \<and>
           first_match ship_marker (map fst xl) = Inr ship_name \<and>
           first_match delay_marker (map fst xl) = Inr delay_name \<and>
           read_excel xl ship_name = Inr df_ship \<and>
           read_excel xl delay_name = Inr df_delay \<and>
           ship_zhoushan lib df_ship = Inr S \<and>
           delay_zhoushan lib df_delay = Inr D \<and>
           df = dropna_all (S @ D)"
  using assms by (auto simp: combined_def split: sum.splits)

lemma dropna_all_region:
  "\<forall>r \<in> set xs. region r \<noteq> Null \<Longrightarrow> dropna_all xs = xs"
  by (induction xs) (auto simp: dropna_all_def all_null_def all_columns_def)

section \<open>Lemmas on the worksheet\<close>

lemma bind_value_Null: "bind_value ox old Null = old\<lparr>xvalue := Null\<rparr>"
  by (simp add: bind_value_def)

lemma set_value_InrD:
  assumes "set_value ox ws r c v = Inr ws'"
  shows "cells ws' p = (if p = (r, c) then bind_value ox (cells ws p) v else cells ws p)"
  using assms by (auto simp: set_value_def split: if_splits option.splits)

lemma cells_set_number_format:
  "cells (set_number_format ws r c f) p =
     (if p = (r, c) then (cells ws p)\<lparr>number_format := f\<rparr> else cells ws p)"
  by (simp add: set_number_format_def)

lemma cells_clear_row:
  assumes "for_each (\<lambda>col ws. set_value ox ws row col Null) cs ws = Inr ws'"
  shows "cells ws' (r, c) =
     (if r = row \<and> c \<in> set cs then (cells ws (r, c))\<lparr>xvalue := Null\<rparr> else cells ws (r, c))"
  using assms
proof (induction cs arbitrary: ws)
  case Nil
  then show ?case by simp
next
  case (Cons col cs)
  from Cons.prems obtain ws1 where
    s: "set_value ox ws row col Null = Inr ws1"
    and rest: "for_each (\<lambda>col ws. set_value ox ws row col Null) cs ws1 = Inr ws'"
    by (auto split: sum.splits)
  show ?case
    using Cons.IH [OF rest] set_value_InrD [OF s, of "(r, c)"]
    by (auto simp: bind_value_Null)
qed

lemma cells_clear_rows:
  assumes "for_each (\<lambda>row ws. for_each (\<lambda>col ws. set_value ox ws row col Null) cs ws) rs ws
             = Inr ws'"
  shows "cells ws' (r, c) =
     (if r \<in> set rs \<and> c \<in> set cs then (cells ws (r, c))\<lparr>xvalue := Null\<rparr> else cells ws (r, c))"
  using assms
proof (induction rs arbitrary: ws)
  case Nil
  then show ?case by simp
next
  case (Cons row rs)
  from Cons.prems obtain ws1 where
    s: "for_each (\<lambda>col ws. set_value ox ws row col Null) cs ws = Inr ws1"
    and rest: "for_each (\<lambda>row ws. for_each (\<lambda>col ws. set_value ox ws row col Null) cs ws) rs ws1
                 = Inr ws'"
    by (auto split: sum.splits)
  show ?case
    using Cons.IH [OF rest] cells_clear_row [OF s, of r c]
    by auto
qed

lemma cells_clean_template:
  assumes "clean_template ox ws = Inr ws1"
  shows "cells ws1 (r, c) =
     (if 2 \<le> r \<and> r \<le> max_row ws \<and> c \<in> set clean_columns
      then (cells ws (r, c))\<lparr>xvalue := Null\<rparr> else cells ws (r, c))"
  using cells_clear_rows [of ox clean_columns "[2 ..< max_row ws + 1]" ws ws1 r c] assms
  by (auto simp: clean_template_def Let_def)

lemma cells_write_row:
  assumes "write_row ox ws cr row = Inr ws'"
  shows "cells ws' (r, c) =
     (if r = cr then written_cell ox row c (cells ws (r, c)) else cells ws (r, c))"
proof -
  from assms obtain w1 w2 w3 w4 w5 w6 w7 w8 where
    h: "set_value ox ws cr 4 (region row) = Inr w1"
       "set_value ox w1 cr 8 (customer row) = Inr w2"
       "set_value ox w2 cr 15 (item_description row) = Inr w3"
       "set_value ox w3 cr 21 (ship_quantity row) = Inr w4"
       "set_value ox (set_number_format w4 cr 21 (ascii ''0.00'')) cr 24 (net_weight row) = Inr w5"
       "set_value ox (set_number_format w5 cr 24 (ascii ''0.000'')) cr 26 (list_price row) = Inr w6"
       "set_value ox (set_number_format w6 cr 26 (ascii ''0.00'')) cr 43 (tax_rate row) = Inr w7"
       "set_value ox (set_number_format w7 cr 43 (ascii ''0.00%'')) cr 45 (signoff_date row) = Inr w8"
       "ws' = set_number_format w8 cr 45 (ascii ''yyyy/mm/dd'')"
    by (auto simp: write_row_def and_then_def Let_def split: sum.splits)
  show ?thesis
    by (simp add: h(9) cells_set_number_format set_value_InrD [OF h(8)] set_value_InrD [OF h(7)]
        set_value_InrD [OF h(6)] set_value_InrD [OF h(5)] set_value_InrD [OF h(4)]
        set_value_InrD [OF h(3)] set_value_InrD [OF h(2)] set_value_InrD [OF h(1)]
        written_cell_def)
qed

lemma cells_fill_from:
  assumes "for_each (\<lambda>(idx, row) ws. write_row ox ws (s + idx) row) (enumerate n df) ws = Inr ws'"
  shows "cells ws' (r, c) =
     (if s + n \<le> r \<and> r < s + n + length df
      then written_cell ox (df ! (r - (s + n))) c (cells ws (r, c)) else cells ws (r, c))"
  using assms
proof (induction df arbitrary: n ws)
  case Nil
  then show ?case by auto
next
  case (Cons row df)
  from Cons.prems obtain ws1 where
    s: "write_row ox ws (s + n) row = Inr ws1"
    and rest: "for_each (\<lambda>(idx, row) ws. write_row ox ws (s + idx) row) (enumerate (Suc n) df) ws1
                 = Inr ws'"
    by (auto split: sum.splits)
  have "cells ws' (r, c) =
        (if s + Suc n \<le> r \<and> r < s + Suc n + length df
         then written_cell ox (df ! (r - (s + Suc n))) c (cells ws1 (r, c))
         else cells ws1 (r, c))"
    by (rule Cons.IH [OF rest])
  also have "\<dots> =
        (if s + n \<le> r \<and> r < s + n + length (row # df)
         then written_cell ox ((row # df) ! (r - (s + n))) c (cells ws (r, c))
         else cells ws (r, c))"
    by (auto simp: cells_write_row [OF s] nth_Cons' Suc_diff_le)
  finally show ?case .
qed

lemma cells_fill_template:
  assumes "fill_template ox ws df = Inr ws'"
  shows "cells ws' (r, c) =
     (if 2 \<le> r \<and> r < 2 + length df
      then written_cell ox (df ! (r - 2)) c (cells ws (r, c)) else cells ws (r, c))"
  using cells_fill_from [of ox start_row 0 df ws ws' r c] assms
  by (simp add: fill_template_def start_row_def)

lemma for_each_succeeds:
  assumes "P s" and "\<And>x s. P s \<Longrightarrow> \<exists>s'. f x s = Inr s' \<and> P s'"
  shows "\<exists>s'. for_each f xs s = Inr s' \<and> P s'"
  using assms(1)
proof (induction xs arbitrary: s)
  case Nil
  then show ?case by simp
next
  case (Cons x xs)
  from assms(2) [OF Cons.prems] obtain s1 where "f x s = Inr s1" "P s1" by blast
  with Cons.IH [of s1] show ?case by simp
qed

lemma set_value_succeeds:
  assumes "stores_all ox" and "unmerged ws"
  shows "\<exists>ws'. set_value ox ws r c v = Inr ws' \<and> unmerged ws'"
  using assms by (auto simp: set_value_def stores_all_def unmerged_def bind_value_def)

lemma unmerged_set_number_format: "unmerged ws \<Longrightarrow> unmerged (set_number_format ws r c f)"
  by (simp add: unmerged_def set_number_format_def)

lemma clean_template_succeeds:
  assumes "stores_all ox" and "unmerged ws"
  shows "\<exists>ws'. clean_template ox ws = Inr ws' \<and> unmerged ws'"
proof -
  have row: "\<exists>ws'. for_each (\<lambda>col ws. set_value ox ws row col Null) clean_columns ws = Inr ws'
                \<and> unmerged ws'"
    if "unmerged ws" for row and ws :: "'a worksheet"
    using that
    by (rule for_each_succeeds [where P = unmerged]) (rule set_value_succeeds [OF assms(1)])
  show ?thesis
    unfolding clean_template_def Let_def
    using assms(2) by (rule for_each_succeeds [where P = unmerged]) (rule row)
qed

lemma write_row_succeeds:
  assumes "stores_all ox" and "unmerged ws"
  shows "\<exists>ws'. write_row ox ws cr row = Inr ws' \<and> unmerged ws'"
proof -
  note sv = set_value_succeeds [OF assms(1)]
  from sv [OF assms(2)] obtain w1 where
    1: "set_value ox ws cr 4 (region row) = Inr w1" "unmerged w1" by blast
  from sv [OF 1(2)] obtain w2 where
    2: "set_value ox w1 cr 8 (customer row) = Inr w2" "unmerged w2" by blast
  from sv [OF 2(2)] obtain w3 where
    3: "set_value ox w2 cr 15 (item_description row) = Inr w3" "unmerged w3" by blast
  from sv [OF 3(2)] obtain w4 where
    4: "set_value ox w3 cr 21 (ship_quantity row) = Inr w4" "unmerged w4" by blast
  from sv [OF unmerged_set_number_format [OF 4(2)]] obtain w5 where
    5: "set_value ox (set_number_format w4 cr 21 (ascii ''0.00'')) cr 24 (net_weight row) = Inr w5"
       "unmerged w5" by blast
  from sv [OF unmerged_set_number_format [OF 5(2)]] obtain w6 where
    6: "set_value ox (set_number_format w5 cr 24 (ascii ''0.000'')) cr 26 (list_price row) = Inr w6"
       "unmerged w6" by blast
  from sv [OF unmerged_set_number_format [OF 6(2)]] obtain w7 where
    7: "set_value ox (set_number_format w6 cr 26 (ascii ''0.00'')) cr 43 (tax_rate row) = Inr w7"
       "unmerged w7" by blast
  from sv [OF unmerged_set_number_format [OF 7(2)]] obtain w8 where
    8: "set_value ox (set_number_format w7 cr 43 (ascii ''0.00%'')) cr 45 (signoff_date row) = Inr w8"
       "unmerged w8" by blast
  show ?thesis
    using 1 2 3 4 5 6 7 8 unmerged_set_number_format [OF 8(2)]
    by (simp add: write_row_def and_then_def Let_def)
qed

lemma fill_template_succeeds:
  assumes "stores_all ox" and "unmerged ws"
  shows "\<exists>ws'. fill_template ox ws df = Inr ws' \<and> unmerged ws'"
proof -
  have step: "\<exists>ws'. (case x of (idx, row) \<Rightarrow> \<lambda>ws. write_row ox ws (start_row + idx) row) ws = Inr ws'
                \<and> unmerged ws'"
    if "unmerged ws" for x and ws :: "'a worksheet"
    using write_row_succeeds [OF assms(1) that] by (cases x) simp
  show ?thesis
    unfolding fill_template_def
    using assms(2) by (rule for_each_succeeds [where P = unmerged]) (rule step)
qed

section \<open>Lemmas on the core function\<close>

text \<open>
  Whatever the log callback does, reading the data file leaves the file system as it is,
  and a frame it returns is the frame \<open>combined\<close> gives.
\<close>

lemma reads_only_return: "P x \<Longrightarrow> reads_only (py_return x) P"
  by (simp add: reads_only_def py_return_def)

lemma reads_only_bind_log:
  "reads_only (f ()) P \<Longrightarrow> reads_only (py_bind (log_callback sink msg) f) P"
  by (auto simp: reads_only_def py_bind_def log_callback_def split: option.splits)

lemma reads_only_bind_lift:
  "(\<And>x. r = Inr x \<Longrightarrow> reads_only (f x) P) \<Longrightarrow> reads_only (py_bind (py_lift r) f) P"
  by (cases r) (auto simp: reads_only_def py_bind_def py_lift_def)

lemma reads_only_df_combined_of:
  "reads_only (df_combined_of sink lib data) (\<lambda>df. combined lib data = Inr df)"
  unfolding df_combined_of_def Let_def
  by (intro reads_only_bind_log reads_only_bind_lift reads_only_return)
     (simp add: combined_def ship_zhoushan_def delay_zhoushan_def Let_def)

lemma df_combined_of_any_sink:
  "files (snd (df_combined_of sink lib data w)) = files w"
  "fst (df_combined_of sink lib data w) = Inr df \<Longrightarrow> combined lib data = Inr df"
  using reads_only_df_combined_of [of sink lib data]
  by (auto simp: reads_only_def)

lemma log_callback_returns:
  "returns_normally sink \<Longrightarrow>
     log_callback sink msg w = (Inr (), w\<lparr>logged := logged w @ [msg]\<rparr>)"
  by (simp add: log_callback_def returns_normally_def)

lemma df_combined_of_returns:
  assumes "returns_normally sink"
  shows "fst (df_combined_of sink lib data w) = combined lib data
       \<and> files (snd (df_combined_of sink lib data w)) = files w"
  by (auto simp: df_combined_of_def combined_def ship_zhoushan_def delay_zhoushan_def
        py_bind_def py_lift_def py_return_def log_callback_returns [OF assms] Let_def
      split: sum.splits)

lemma df_combined_of_eq:
  assumes "returns_normally sink"
  obtains w1 where "df_combined_of sink lib data w = (combined lib data, w1)"
    and "files w1 = files w"
  using df_combined_of_returns [OF assms, of lib data w]
  by (cases "df_combined_of sink lib data w") auto

lemma core_empty:
  assumes "returns_normally sink"
    and "files w template_path = Some template" and "files w data_path = Some data"
    and "combined lib data = Inr []"
  shows "fst (process_excel_core sink lib ox save template_path data_path save_path w)
           = Inr (False, Some empty_data_message)
       \<and> files (snd (process_excel_core sink lib ox save template_path data_path save_path w))
           = files w"
proof -
  obtain w1 where "df_combined_of sink lib data w = (combined lib data, w1)" "files w1 = files w"
    by (rule df_combined_of_eq [OF assms(1)])
  then show ?thesis
    using assms(2-4)
    by (simp add: process_excel_core_def process_excel_try_def py_bind_def py_return_def
        log_callback_returns [OF assms(1)])
qed

lemma core_reaches_save:
  assumes "returns_normally sink"
    and "files w template_path = Some template" and "files w data_path = Some data"
    and "combined lib data = Inr df" and "df \<noteq> []"
    and "load_workbook template = Inr wb" and "wb target_sheet = Some ws"
    and "clean_template ox ws = Inr ws1" and "fill_template ox ws1 df = Inr ws2"
  shows "(fst (process_excel_core sink lib ox save template_path data_path save_path w),
          files (snd (process_excel_core sink lib ox save template_path data_path save_path w)))
         = (case save (wb(target_sheet \<mapsto> ws2)) save_path (files w) of
              (Inl e, fs') \<Rightarrow> (Inr (False, Some (failure_prefix @ str_exn e)), fs')
            | (Inr u, fs') \<Rightarrow> (Inr (True, None), fs'))"
proof -
  obtain w1 where "df_combined_of sink lib data w = (combined lib data, w1)" "files w1 = files w"
    by (rule df_combined_of_eq [OF assms(1)])
  then show ?thesis
    using assms(2-9)
    by (auto simp: process_excel_core_def process_excel_try_def py_bind_def py_return_def
        py_lift_def py_raise_def wb_save_def Let_def log_callback_returns [OF assms(1)]
        split: prod.splits sum.splits)
qed


section \<open>The example, evaluated\<close>

lemma ex_ship: "ship_zhoushan ex_lib ex_ship_sheet = Inr [ex_row_a]"
  by (simp add: ship_zhoushan_def ship_cols_def ex_ship_sheet_def convert_numeric_columns_def
      numeric_cols_def process_date_column_def Let_def ex_lib_def ex_row_a_def
      target_region_def ascii_def get_col_SignoffDate)

lemma ex_delay: "delay_zhoushan ex_lib ex_delay_sheet = Inr [ex_row_d]"
  by (simp add: delay_zhoushan_def delay_cols_def ex_delay_sheet_def convert_numeric_columns_def
      numeric_cols_def Let_def ex_lib_def ex_row_d_def merged_row.truncate_def
      target_region_def ascii_def)

lemma ex_combined: "combined ex_lib ex_data = Inr [ex_row_a, ex_row_d]"
  by (simp add: combined_def ex_data_def first_match_def ship_marker_def read_excel_def
      ex_ship ex_delay dropna_all_def all_null_def all_columns_def ex_row_a_def ex_row_d_def
      ex_ship_name_def delay_marker_def)

lemma ship_zhoushan_region:
  "ship_zhoushan lib df = Inr S \<Longrightarrow> r \<in> set S \<Longrightarrow> region r = Str target_region"
  by (auto dest!: ship_zhoushan_rows simp: ship_row_of_def)

lemma delay_zhoushan_region:
  "delay_zhoushan lib df = Inr D \<Longrightarrow> r \<in> set D \<Longrightarrow> region r = Str target_region"
  by (auto dest!: delay_zhoushan_rows simp: delay_row_of_def)

lemma delay_zhoushan_signoff:
  "delay_zhoushan lib df = Inr D \<Longrightarrow> r \<in> set D \<Longrightarrow> signoff_date r = Null"
  by (auto dest!: delay_zhoushan_rows simp: delay_row_of_def)

lemma combined_concat:
  assumes "combined lib data = Inr df"
  shows "\<exists>xl ship_name delay_name df_ship df_delay S D.
           excel_file data = Inr xl \<and>
           first_match ship_marker (map fst xl) = Inr ship_name \<and>
           first_match delay_marker (map fst xl) = Inr delay_name \<and>
           read_excel xl ship_name = Inr df_ship \<and>
           read_excel xl delay_name = Inr df_delay \<and>
           ship_zhoushan lib df_ship = Inr S \<and>
           delay_zhoushan lib df_delay = Inr D \<and>
           df = S @ D"
proof -
  from combined_InrD [OF assms] obtain xl ship_name delay_name df_ship df_delay S D where
    h: "excel_file data = Inr xl" "first_match ship_marker (map fst xl) = Inr ship_name"
       "first_match delay_marker (map fst xl) = Inr delay_name"
       "read_excel xl ship_name = Inr df_ship" "read_excel xl delay_name = Inr df_delay"
       "ship_zhoushan lib df_ship = Inr S" "delay_zhoushan lib df_delay = Inr D"
       "df = dropna_all (S @ D)"
    by blast
  have "\<forall>r \<in> set (S @ D). region r \<noteq> Null"
    using ship_zhoushan_region [OF h(6)] delay_zhoushan_region [OF h(7)] by auto
  then have "dropna_all (S @ D) = S @ D" by (rule dropna_all_region)
  with h show ?thesis by blast
qed

section \<open>The claims\<close>

text \<open>
  Claim C1. Whenever the data file is read and merged, every row of the merged frame has
  the target region as its region, so no source row of another region is in it; and the
  merged frame is exactly the shipment rows whose region is the target region, in sheet
  order, followed by the backlog rows whose region is the target region and whose
  organisation is neither missing nor the empty string, in sheet order.
\<close>

theorem region_filter_correct:
  assumes "combined lib data = Inr df"
  shows "(\<forall>r \<in> set df. region r = Str target_region) \<and>
         (\<exists>xl ship_name delay_name df_ship df_delay.
            excel_file data = Inr xl \<and>
            first_match ship_marker (map fst xl) = Inr ship_name \<and>
            first_match delay_marker (map fst xl) = Inr delay_name \<and>
            read_excel xl ship_name = Inr df_ship \<and>
            read_excel xl delay_name = Inr df_delay \<and>
            df = map (ship_row_of lib (map (\<lambda>raw. raw 28) (rows df_ship)))
                   (filter (\<lambda>raw. raw 3 = Str target_region) (rows df_ship))
               @ map (delay_row_of lib)
                   (filter (\<lambda>raw. raw 3 = Str target_region \<and> raw 26 \<noteq> Null
                                   \<and> raw 26 \<noteq> Str []) (rows df_delay)))"
proof -
  from combined_concat [OF assms] obtain xl ship_name delay_name df_ship df_delay S D where
    h: "excel_file data = Inr xl" "first_match ship_marker (map fst xl) = Inr ship_name"
       "first_match delay_marker (map fst xl) = Inr delay_name"
       "read_excel xl ship_name = Inr df_ship" "read_excel xl delay_name = Inr df_delay"
       "ship_zhoushan lib df_ship = Inr S" "delay_zhoushan lib df_delay = Inr D"
       "df = S @ D"
    by blast
  have reg: "\<forall>r \<in> set df. region r = Str target_region"
    using ship_zhoushan_region [OF h(6)] delay_zhoushan_region [OF h(7)] h(8) by auto
  have "df = map (ship_row_of lib (map (\<lambda>raw. raw 28) (rows df_ship)))
                (filter (\<lambda>raw. raw 3 = Str target_region) (rows df_ship))
           @ map (delay_row_of lib)
               (filter (\<lambda>raw. raw 3 = Str target_region \<and> raw 26 \<noteq> Null \<and> raw 26 \<noteq> Str [])
                  (rows df_delay))"
    using ship_zhoushan_rows [OF h(6)] delay_zhoushan_rows [OF h(7)] h(8) by simp
  with reg h(1-5) show ?thesis by blast
qed

text \<open>The example: of five source rows, the two that pass the filters are merged.\<close>

theorem region_filter_correct_witness:
  "combined ex_lib ex_data = Inr [ex_row_a, ex_row_d] \<and>
   region ex_row_a = Str target_region \<and> region ex_row_d = Str target_region"
  using region_filter_correct [OF ex_combined] ex_combined by simp

text \<open>
  Claim C2. The merged frame is the filtered shipment rows followed by the filtered
  backlog rows, and every backlog row in it (every row past the shipment rows) has a
  missing sign-off date, whatever the backlog sheet holds.
\<close>

theorem backlog_signoff_null:
  assumes "combined lib data = Inr df"
  shows "\<exists>xl ship_name delay_name df_ship df_delay S D.
           excel_file data = Inr xl \<and>
           first_match ship_marker (map fst xl) = Inr ship_name \<and>
           first_match delay_marker (map fst xl) = Inr delay_name \<and>
           read_excel xl ship_name = Inr df_ship \<and>
           read_excel xl delay_name = Inr df_delay \<and>
           ship_zhoushan lib df_ship = Inr S \<and>
           delay_zhoushan lib df_delay = Inr D \<and>
           df = S @ D \<and>
           (\<forall>r \<in> set D. signoff_date r = Null) \<and>
           (\<forall>i. length S \<le> i \<and> i < length df \<longrightarrow> signoff_date (df ! i) = Null)"
proof -
  from combined_concat [OF assms] obtain xl ship_name delay_name df_ship df_delay S D where
    h: "excel_file data = Inr xl" "first_match ship_marker (map fst xl) = Inr ship_name"
       "first_match delay_marker (map fst xl) = Inr delay_name"
       "read_excel xl ship_name = Inr df_ship" "read_excel xl delay_name = Inr df_delay"
       "ship_zhoushan lib df_ship = Inr S" "delay_zhoushan lib df_delay = Inr D"
       "df = S @ D"
    by blast
  have d: "\<forall>r \<in> set D. signoff_date r = Null"
    using delay_zhoushan_signoff [OF h(7)] by blast
  have "\<forall>i. length S \<le> i \<and> i < length df \<longrightarrow> signoff_date (df ! i) = Null"
  proof (intro allI impI)
    fix i assume i: "length S \<le> i \<and> i < length df"
    then have "df ! i = D ! (i - length S)" and "i - length S < length D"
      using h(8) by (auto simp: nth_append)
    then show "signoff_date (df ! i) = Null" using d by simp
  qed
  with d h show ?thesis by blast
qed

text \<open>The example: the backlog row that is merged has no sign-off date.\<close>

theorem backlog_signoff_null_witness:
  "combined ex_lib ex_data = Inr [ex_row_a, ex_row_d] \<and> signoff_date ex_row_d = Null"
  using backlog_signoff_null [OF ex_combined] ex_combined by (simp add: ex_row_d_def)








lemma dt_date_to_datetime:
  "dt_date (to_datetime_coerce lib column v) =
     (if v = Null then Null
      else case datetime_value lib column v of Some (d, t) \<Rightarrow> DateTime d 0 | None \<Rightarrow> Null)"
  by (cases "(lib, column, v)" rule: to_datetime_coerce.cases) (auto split: option.splits)

lemma dt_date_to_datetime_cases:
  "dt_date (to_datetime_coerce lib column v) = Null
     \<or> (\<exists>d. dt_date (to_datetime_coerce lib column v) = DateTime d 0)"
  by (simp add: dt_date_to_datetime split: option.splits)

lemma ship_zhoushan_signoff:
  assumes "ship_zhoushan lib df = Inr S" and "r \<in> set S"
  shows "signoff_date r = Null \<or> (\<exists>d. signoff_date r = DateTime d 0)"
proof -
  from ship_zhoushan_rows [OF assms(1)] assms(2) obtain raw where
    "r = ship_row_of lib (map (\<lambda>raw. raw 28) (rows df)) raw"
    by auto
  then show ?thesis
    using dt_date_to_datetime_cases [of lib "map (\<lambda>raw. raw 28) (rows df)" "raw 28"]
    by (simp add: ship_row_of_def)
qed

text \<open>
  Claim C4, as amended. \<open>process_date_column\<close> keeps the length of the frame. A sign-off
  value that is present and that pandas reads as a timestamp in the conversion of the
  whole sign-off column becomes the date of that timestamp at 00:00:00: the time of day
  is discarded. Any other value becomes missing, also one that would be read on its own
  but not with the format of the column. Downstream, every sign-off value of the merged
  frame is missing or a date at 00:00:00, and that is the value written to column 45.
\<close>

theorem signoff_time_discarded:
  assumes "i < length df"
  shows "length (process_date_column lib df SignoffDate) = length df \<and>
         signoff_date (process_date_column lib df SignoffDate ! i) =
           (if signoff_date (df ! i) = Null then Null
            else case datetime_value lib (map signoff_date df) (signoff_date (df ! i)) of
                   Some (d, t) \<Rightarrow> DateTime d 0
                 | None \<Rightarrow> Null) \<and>
         (\<forall>data out. combined lib data = Inr out \<longrightarrow>
            (\<forall>r \<in> set out. signoff_date r = Null \<or> (\<exists>d. signoff_date r = DateTime d 0)) \<and>
            (\<forall>ox ws ws' k. k < length out \<and> fill_template ox ws out = Inr ws' \<longrightarrow>
               xvalue (cells ws' (2 + k, 45)) = signoff_date (out ! k)))"
proof -
  have a: "length (process_date_column lib df SignoffDate) = length df"
    by (simp add: process_date_column_rows)
  have b: "signoff_date (process_date_column lib df SignoffDate ! i) =
           (if signoff_date (df ! i) = Null then Null
            else case datetime_value lib (map signoff_date df) (signoff_date (df ! i)) of
                   Some (d, t) \<Rightarrow> DateTime d 0
                 | None \<Rightarrow> Null)"
    using assms by (simp add: process_date_column_rows dt_date_to_datetime)
  have c: "\<forall>r \<in> set out. signoff_date r = Null \<or> (\<exists>d. signoff_date r = DateTime d 0)"
    if "combined lib data = Inr out" for data out
  proof -
    from combined_concat [OF that] obtain df_ship df_delay S D where
      h: "ship_zhoushan lib df_ship = Inr S" "delay_zhoushan lib df_delay = Inr D" "out = S @ D"
      by blast
    show ?thesis
      using ship_zhoushan_signoff [OF h(1)] delay_zhoushan_signoff [OF h(2)] h(3) by auto
  qed
  have d: "xvalue (cells ws' (2 + k, 45)) = signoff_date (out ! k)"
    if "k < length out \<and> fill_template ox ws out = Inr ws'"
    for ox ws ws' k and out :: "'a merged_row list"
    using that cells_fill_template [of ox ws out ws' "2 + k" 45]
    by (simp add: written_cell_def bind_value_def)
  from a b c d show ?thesis by blast
qed

text \<open>The example rows: \<open>2024-01-02 08:00:00\<close> becomes 2024-01-02 at 00:00:00.\<close>

theorem signoff_time_discarded_witness:
  "signoff_date (process_date_column ex_lib ex_signoff_rows SignoffDate ! 0)
     = DateTime (2024, 1, 2) 0"
  using signoff_time_discarded [of 0 ex_signoff_rows ex_lib]
  by (simp add: ex_signoff_rows_def ex_lib_def ascii_def)

text \<open>
  Claim C4 as stated fails: the second example row holds \<open>01/03/2024\<close>, which reads as a
  date on its own, but the column takes its format from the first row, and the value
  becomes missing.
\<close>

theorem signoff_parses_alone_counterexample:
  "datetime_value ex_lib [Str (ascii ''01/03/2024'')] (Str (ascii ''01/03/2024''))
     = Some ((2024, 1, 3), 0)
   \<and> signoff_date (ex_signoff_rows ! 1) = Str (ascii ''01/03/2024'')
   \<and> signoff_date (process_date_column ex_lib ex_signoff_rows SignoffDate ! 1) = Null"
  by (simp add: ex_signoff_rows_def ex_lib_def ascii_def process_date_column_rows)



lemma ex_combined_dated: "combined ex_lib ex_data_dated = Inr [ex_row_t]"
  by (simp add: combined_def ex_data_dated_def first_match_def ship_marker_def read_excel_def
      ship_zhoushan_def ship_cols_def delay_zhoushan_def delay_cols_def
      convert_numeric_columns_def numeric_cols_def process_date_column_def Let_def
      dropna_all_def all_null_def all_columns_def ex_row_t_def
      ex_ship_name_def delay_marker_def target_region_def ascii_def)

lemma ex_paths_distinct:
  "ex_template_path \<noteq> ex_data_path" "ex_save_path \<noteq> ex_template_path"
  "ex_save_path \<noteq> ex_data_path"
  by (simp_all add: ex_template_path_def ex_data_path_def ex_save_path_def ascii_def)

lemma ex_fs_simps:
  "ex_fs t d ex_template_path = Some t" "ex_fs t d ex_data_path = Some d"
  "ex_fs t d ex_save_path = None"
  using ex_paths_distinct by (simp_all add: ex_fs_def)

lemma ex_world_files:
  "files (ex_world t d) ex_template_path = Some t" "files (ex_world t d) ex_data_path = Some d"
  "files (ex_world t d) ex_save_path = None"
  by (simp_all add: ex_world_def ex_fs_simps)

lemma ex_sink_quiet_returns: "returns_normally ex_sink_quiet"
  by (simp add: returns_normally_def ex_sink_quiet_def)

lemma ex_template_loads:
  "load_workbook ex_template = Inr ex_workbook" "ex_workbook target_sheet = Some ex_template_sheet"
  by (simp_all add: ex_template_def ex_workbook_def)

lemma ex_writes_succeed: "stores_all ex_ox" "unmerged ex_template_sheet"
  by (simp_all add: stores_all_def ex_ox_def unmerged_def ex_template_sheet_def)



lemma core_template_fails:
  assumes "returns_normally sink"
    and "files w template_path = Some template" and "files w data_path = Some data"
    and "combined lib data = Inr df" and "df \<noteq> []"
  shows "load_workbook template = Inl e \<Longrightarrow>
           fst (process_excel_core sink lib ox save template_path data_path save_path w)
             = Inr (False, Some (failure_prefix @ str_exn e))
         \<and> files (snd (process_excel_core sink lib ox save template_path data_path save_path w))
             = files w"
    and "load_workbook template = Inr wb \<Longrightarrow> wb target_sheet = None \<Longrightarrow>
           fst (process_excel_core sink lib ox save template_path data_path save_path w)
             = Inr (False, Some (failure_prefix @ str_exn (KeyError sheet_missing_message)))
         \<and> files (snd (process_excel_core sink lib ox save template_path data_path save_path w))
             = files w"
proof -
  obtain w1 where w1: "df_combined_of sink lib data w = (combined lib data, w1)" "files w1 = files w"
    by (rule df_combined_of_eq [OF assms(1)])
  show "load_workbook template = Inl e \<Longrightarrow>
           fst (process_excel_core sink lib ox save template_path data_path save_path w)
             = Inr (False, Some (failure_prefix @ str_exn e))
         \<and> files (snd (process_excel_core sink lib ox save template_path data_path save_path w))
             = files w"
    using w1 assms(2-5)
    by (simp add: process_excel_core_def process_excel_try_def py_bind_def py_return_def
        py_lift_def py_raise_def Let_def log_callback_returns [OF assms(1)])
  show "load_workbook template = Inr wb \<Longrightarrow> wb target_sheet = None \<Longrightarrow>
           fst (process_excel_core sink lib ox save template_path data_path save_path w)
             = Inr (False, Some (failure_prefix @ str_exn (KeyError sheet_missing_message)))
         \<and> files (snd (process_excel_core sink lib ox save template_path data_path save_path w))
             = files w"
    using w1 assms(2-5)
    by (simp add: process_excel_core_def process_excel_try_def py_bind_def py_return_def
        py_lift_def py_raise_def Let_def log_callback_returns [OF assms(1)])
qed



lemma core_no_save:
  assumes "returns_normally sink"
  shows "(\<exists>template data df wb ws ws1 ws2.
            files w template_path = Some template \<and> files w data_path = Some data \<and>
            combined lib data = Inr df \<and> df \<noteq> [] \<and> load_workbook template = Inr wb \<and>
            wb target_sheet = Some ws \<and> clean_template ox ws = Inr ws1 \<and>
            fill_template ox ws1 df = Inr ws2)
       \<or> (files (snd (process_excel_core sink lib ox save template_path data_path save_path w))
             = files w
          \<and> (\<exists>m. fst (process_excel_core sink lib ox save template_path data_path save_path w)
                    = Inr (False, Some m)))"
proof (cases "files w template_path")
  case None
  then show ?thesis
    by (simp add: process_excel_core_def process_excel_try_def py_bind_def py_return_def
        py_raise_def Let_def log_callback_returns [OF assms])
next
  case (Some template)
  note t = this
  show ?thesis
  proof (cases "files w data_path")
    case None
    with t show ?thesis
      by (simp add: process_excel_core_def process_excel_try_def py_bind_def py_return_def
          py_raise_def Let_def log_callback_returns [OF assms])
  next
    case (Some data)
    note d = this
    obtain w1 where w1: "df_combined_of sink lib data w = (combined lib data, w1)"
      "files w1 = files w"
      by (rule df_combined_of_eq [OF assms])
    show ?thesis
    proof (cases "combined lib data")
      case (Inl e)
      with t d w1 show ?thesis
        by (simp add: process_excel_core_def process_excel_try_def py_bind_def py_return_def
            py_raise_def Let_def log_callback_returns [OF assms])
    next
      case (Inr df)
      note c = this
      show ?thesis
      proof (cases "df = []")
        case True
        with core_empty [OF assms t d, of lib ox save save_path] c show ?thesis by auto
      next
        case False
        note ne = this
        show ?thesis
        proof (cases "load_workbook template")
          case (Inl e)
          with core_template_fails(1) [OF assms t d c ne, of e ox save save_path]
          show ?thesis by auto
        next
          case (Inr wb)
          note l = this
          show ?thesis
          proof (cases "wb target_sheet")
            case None
            with core_template_fails(2) [OF assms t d c ne l, of ox save save_path]
            show ?thesis by auto
          next
            case (Some ws)
            note s = this
            show ?thesis
            proof (cases "clean_template ox ws")
              case (Inl e)
              with t d w1 c ne l s show ?thesis
                by (simp add: process_excel_core_def process_excel_try_def py_bind_def
                    py_return_def py_raise_def py_lift_def Let_def
                    log_callback_returns [OF assms])
            next
              case (Inr ws1)
              note cl = this
              show ?thesis
              proof (cases "fill_template ox ws1 df")
                case (Inl e)
                with t d w1 c ne l s cl show ?thesis
                  by (simp add: process_excel_core_def process_excel_try_def py_bind_def
                      py_return_def py_raise_def py_lift_def Let_def
                      log_callback_returns [OF assms])
              next
                case (Inr ws2)
                with t d c ne l s cl show ?thesis by blast
              qed
            qed
          qed
        qed
      qed
    qed
  qed
qed

text \<open>
  Claim C9, as amended, for a log callback that returns normally. When both files exist,
  the data merges to a frame that is not empty, the template loads and has the target
  sheet, and cleaning and filling the sheet raise nothing, then \<open>wb.save\<close> is called with
  the workbook whose target sheet is cleaned and filled with all merged rows, and its
  outcome decides: when it returns normally the function returns \<open>(True, None)\<close>, when it
  raises the function returns the failure with the message of the exception, and either
  way the file system is the one \<open>wb.save\<close> left. In every other case the function
  returns a failure and the file system is exactly as it was.
\<close>

theorem save_is_the_only_write:
  assumes "returns_normally sink"
  shows "(\<forall>template data df wb ws ws1 ws2.
            files w template_path = Some template \<and> files w data_path = Some data \<and>
            combined lib data = Inr df \<and> df \<noteq> [] \<and> load_workbook template = Inr wb \<and>
            wb target_sheet = Some ws \<and> clean_template ox ws = Inr ws1 \<and>
            fill_template ox ws1 df = Inr ws2 \<longrightarrow>
            (fst (process_excel_core sink lib ox save template_path data_path save_path w),
             files (snd (process_excel_core sink lib ox save template_path data_path save_path w)))
            = (case save (wb(target_sheet \<mapsto> ws2)) save_path (files w) of
                 (Inl e, fs') \<Rightarrow> (Inr (False, Some (failure_prefix @ str_exn e)), fs')
               | (Inr u, fs') \<Rightarrow> (Inr (True, None), fs')))
       \<and> ((\<nexists>template data df wb ws ws1 ws2.
            files w template_path = Some template \<and> files w data_path = Some data \<and>
            combined lib data = Inr df \<and> df \<noteq> [] \<and> load_workbook template = Inr wb \<and>
            wb target_sheet = Some ws \<and> clean_template ox ws = Inr ws1 \<and>
            fill_template ox ws1 df = Inr ws2) \<longrightarrow>
            files (snd (process_excel_core sink lib ox save template_path data_path save_path w))
              = files w
            \<and> (\<exists>m. fst (process_excel_core sink lib ox save template_path data_path save_path w)
                     = Inr (False, Some m)))"
proof (intro conjI allI impI)
  fix template data df wb ws ws1 ws2
  assume "files w template_path = Some template \<and> files w data_path = Some data \<and>
            combined lib data = Inr df \<and> df \<noteq> [] \<and> load_workbook template = Inr wb \<and>
            wb target_sheet = Some ws \<and> clean_template ox ws = Inr ws1 \<and>
            fill_template ox ws1 df = Inr ws2"
  then show "(fst (process_excel_core sink lib ox save template_path data_path save_path w),
             files (snd (process_excel_core sink lib ox save template_path data_path save_path w)))
            = (case save (wb(target_sheet \<mapsto> ws2)) save_path (files w) of
                 (Inl e, fs') \<Rightarrow> (Inr (False, Some (failure_prefix @ str_exn e)), fs')
               | (Inr u, fs') \<Rightarrow> (Inr (True, None), fs'))"
    using core_reaches_save [OF assms, of w template_path template data_path data lib df wb ws ox
        ws1 ws2 save save_path]
    by blast
next
  assume n: "\<nexists>template data df wb ws ws1 ws2.
            files w template_path = Some template \<and> files w data_path = Some data \<and>
            combined lib data = Inr df \<and> df \<noteq> [] \<and> load_workbook template = Inr wb \<and>
            wb target_sheet = Some ws \<and> clean_template ox ws = Inr ws1 \<and>
            fill_template ox ws1 df = Inr ws2"
  from core_no_save [OF assms, of w template_path data_path lib ox save save_path] n
  show "files (snd (process_excel_core sink lib ox save template_path data_path save_path w))
          = files w"
    by blast
  from core_no_save [OF assms, of w template_path data_path lib ox save save_path] n
  show "\<exists>m. fst (process_excel_core sink lib ox save template_path data_path save_path w)
             = Inr (False, Some m)"
    by blast
qed

lemma ex_prepared:
  obtains ws1 ws2 where "clean_template ex_ox ex_template_sheet = Inr ws1"
    and "fill_template ex_ox ws1 df = Inr ws2"
proof -
  from clean_template_succeeds [OF ex_writes_succeed] obtain ws1 where
    1: "clean_template ex_ox ex_template_sheet = Inr ws1" "unmerged ws1" by blast
  from fill_template_succeeds [OF ex_writes_succeed(1) 1(2), of df] obtain ws2 where
    "fill_template ex_ox ws1 df = Inr ws2" by blast
  with 1 that show ?thesis by blast
qed

text \<open>The example with a save that succeeds: success, and the workbook is at the save path.\<close>

theorem save_is_the_only_write_witness:
  "fst (process_excel_core ex_sink_quiet ex_lib ex_ox ex_save_ok
          ex_template_path ex_data_path ex_save_path (ex_world ex_template ex_data))
     = Inr (True, None)
   \<and> (\<exists>wb. files (snd (process_excel_core ex_sink_quiet ex_lib ex_ox ex_save_ok
          ex_template_path ex_data_path ex_save_path (ex_world ex_template ex_data))) ex_save_path
         = Some (File (Inr []) (Inr wb)))"
proof -
  obtain ws1 ws2 where p: "clean_template ex_ox ex_template_sheet = Inr ws1"
    "fill_template ex_ox ws1 [ex_row_a, ex_row_d] = Inr ws2"
    by (rule ex_prepared)
  from save_is_the_only_write [OF ex_sink_quiet_returns,
         of "ex_world ex_template ex_data" ex_template_path ex_data_path ex_lib ex_ox ex_save_ok
            ex_save_path]
       ex_world_files(1) [of ex_template ex_data] ex_world_files(2) [of ex_template ex_data]
       ex_combined ex_template_loads p
  have "(fst (process_excel_core ex_sink_quiet ex_lib ex_ox ex_save_ok
          ex_template_path ex_data_path ex_save_path (ex_world ex_template ex_data)),
         files (snd (process_excel_core ex_sink_quiet ex_lib ex_ox ex_save_ok
          ex_template_path ex_data_path ex_save_path (ex_world ex_template ex_data))))
        = (case ex_save_ok (ex_workbook(target_sheet \<mapsto> ws2)) ex_save_path
                  (files (ex_world ex_template ex_data)) of
             (Inl e, fs') \<Rightarrow> (Inr (False, Some (failure_prefix @ str_exn e)), fs')
           | (Inr u, fs') \<Rightarrow> (Inr (True, None), fs'))"
    by blast
  then show ?thesis by (simp add: ex_save_ok_def)
qed

text \<open>
  Claim C9 as stated fails: when \<open>wb.save\<close> creates the file and then raises, the function
  returns a failure and a file that was not there before is at the save path.
\<close>

theorem partial_save_counterexample:
  "fst (process_excel_core ex_sink_quiet ex_lib ex_ox ex_save_partial
          ex_template_path ex_data_path ex_save_path (ex_world ex_template ex_data))
     = Inr (False, Some (failure_prefix @ ascii ''No space left on device''))
   \<and> files (snd (process_excel_core ex_sink_quiet ex_lib ex_ox ex_save_partial
          ex_template_path ex_data_path ex_save_path (ex_world ex_template ex_data))) ex_save_path
     = Some ex_truncated
   \<and> files (ex_world ex_template ex_data) ex_save_path = None"
proof -
  obtain ws1 ws2 where p: "clean_template ex_ox ex_template_sheet = Inr ws1"
    "fill_template ex_ox ws1 [ex_row_a, ex_row_d] = Inr ws2"
    by (rule ex_prepared)
  have ne: "[ex_row_a, ex_row_d] \<noteq> []" by simp
  from core_reaches_save
         [where save = ex_save_partial and save_path = ex_save_path
            and w = "ex_world ex_template ex_data",
          OF ex_sink_quiet_returns ex_world_files(1) ex_world_files(2)
             ex_combined ne ex_template_loads p]
  show ?thesis by (simp add: ex_save_partial_def ex_world_files)
qed

lemma no_exception_when_sink_returns:
  assumes "returns_normally sink"
  shows "fst (process_excel_core sink lib ox save template_path data_path save_path w)
           = Inr (True, None)
       \<or> (\<exists>m. fst (process_excel_core sink lib ox save template_path data_path save_path w)
                 = Inr (False, Some m))"
proof -
  from core_no_save [OF assms, of w template_path data_path lib ox save save_path]
  show ?thesis
  proof
    assume "\<exists>template data df wb ws ws1 ws2.
            files w template_path = Some template \<and> files w data_path = Some data \<and>
            combined lib data = Inr df \<and> df \<noteq> [] \<and> load_workbook template = Inr wb \<and>
            wb target_sheet = Some ws \<and> clean_template ox ws = Inr ws1 \<and>
            fill_template ox ws1 df = Inr ws2"
    then obtain template data df wb ws ws1 ws2 where
      h: "files w template_path = Some template" "files w data_path = Some data"
         "combined lib data = Inr df" "df \<noteq> []" "load_workbook template = Inr wb"
         "wb target_sheet = Some ws" "clean_template ox ws = Inr ws1"
         "fill_template ox ws1 df = Inr ws2"
      by blast
    from core_reaches_save [OF assms h, of save save_path]
    show ?thesis
      by (cases "save (wb(target_sheet \<mapsto> ws2)) save_path (files w)")
         (auto split: sum.splits)
  next
    assume "files (snd (process_excel_core sink lib ox save template_path data_path save_path w))
             = files w
          \<and> (\<exists>m. fst (process_excel_core sink lib ox save template_path data_path save_path w)
                    = Inr (False, Some m))"
    then show ?thesis by blast
  qed
qed

lemma handler_log_raises:
  assumes "process_excel_try sink lib ox save template_path data_path save_path w = (Inl e, w')"
    and "sink (logged w') (failure_prefix @ str_exn e) = Some e'"
  shows "fst (process_excel_core sink lib ox save template_path data_path save_path w) = Inl e'"
  using assms
  by (simp add: process_excel_core_def py_bind_def log_callback_def Let_def)

text \<open>
  Claim C8 fails on the code. With the default callback on an output stream that encodes
  ASCII only, and both example files in place, the first log call raises inside the
  \<open>try\<close>; the handler calls the log callback with the failure message, which raises
  again, and that exception leaves the function: no pair is returned. (With a log
  callback that returns normally a pair is always returned: lemma
  \<open>no_exception_when_sink_returns\<close>.)
\<close>

theorem log_failure_escapes:
  "fst (process_excel_core ex_sink_ascii ex_lib ex_ox ex_save_ok
          ex_template_path ex_data_path ex_save_path (ex_world ex_template ex_data))
     = Inl ex_encode_error"
proof -
  have a: "list_ex (\<lambda>c. 127 < c) msg_start"
    by (simp add: msg_start_def)
  have b: "list_ex (\<lambda>c. 127 < c) (failure_prefix @ m)" for m
    by (simp add: failure_prefix_def)
  have d: "df_combined_of ex_sink_ascii ex_lib data w
             = (Inl ex_encode_error, w\<lparr>logged := logged w @ [msg_start]\<rparr>)"
    for data and w :: "rat world"
    using a by (simp add: df_combined_of_def py_bind_def log_callback_def ex_sink_ascii_def)
  have "process_excel_try ex_sink_ascii ex_lib ex_ox ex_save_ok
          ex_template_path ex_data_path ex_save_path (ex_world ex_template ex_data)
        = (Inl ex_encode_error,
           (ex_world ex_template ex_data)
             \<lparr>logged := logged (ex_world ex_template ex_data) @ [msg_start]\<rparr>)"
    by (simp add: process_excel_try_def ex_world_files py_bind_def d)
  from handler_log_raises [OF this, of ex_encode_error] b
  show ?thesis by (simp add: ex_sink_ascii_def)
qed

text \<open>The same run: some exception leaves the function.\<close>

theorem log_failure_escapes_witness:
  "\<exists>e. fst (process_excel_core ex_sink_ascii ex_lib ex_ox ex_save_ok
          ex_template_path ex_data_path ex_save_path (ex_world ex_template ex_data)) = Inl e"
  using log_failure_escapes by blast

lemma ex_sink_done_simps:
  "ex_sink_done h msg_start = None"
  "ex_sink_done h (msg_sheets a b) = None"
  "ex_sink_done h msg_ship = None"
  "ex_sink_done h msg_date = None"
  "ex_sink_done h (msg_ship_rows n) = None"
  "ex_sink_done h msg_delay = None"
  "ex_sink_done h (msg_delay_rows n) = None"
  "ex_sink_done h msg_merge = None"
  "ex_sink_done h (msg_total n) = None"
  "ex_sink_done h msg_load = None"
  "ex_sink_done h msg_clean = None"
  "ex_sink_done h msg_fill = None"
  "ex_sink_done h (msg_done p) = Some ex_encode_error"
  "ex_sink_done h (failure_prefix @ m) = None"
  by (simp_all add: ex_sink_done_def msg_done_a_def msg_start_def msg_sheets_def msg_sheets_a_def
      msg_ship_def msg_date_def msg_ship_rows_def msg_ship_rows_a_def msg_delay_def
      msg_delay_rows_def msg_delay_rows_a_def msg_merge_def msg_total_def msg_total_a_def
      msg_load_def msg_clean_def msg_fill_def msg_done_def failure_prefix_def)

lemma ex_df_combined_done:
  "fst (df_combined_of ex_sink_done ex_lib ex_data w) = Inr [ex_row_a, ex_row_d]
   \<and> files (snd (df_combined_of ex_sink_done ex_lib ex_data w)) = files w"
  by (simp add: df_combined_of_def py_bind_def py_lift_def py_return_def log_callback_def
      ex_sink_done_simps Let_def
      ex_data_def first_match_def ship_marker_def read_excel_def
      ship_cols_def delay_cols_def ex_ship_sheet_def ex_delay_sheet_def
      convert_numeric_columns_def numeric_cols_def process_date_column_def
      ex_lib_def ex_row_a_def ex_row_d_def merged_row.truncate_def
      dropna_all_def all_null_def all_columns_def
      ex_ship_name_def delay_marker_def target_region_def ascii_def get_col_SignoffDate)

text \<open>
  A log callback that raises on the completion message, after \<open>wb.save\<close> has returned:
  the exception is caught, and the function returns a failure although the workbook is
  at the save path.
\<close>

lemma log_failure_after_save:
  "fst (process_excel_core ex_sink_done ex_lib ex_ox ex_save_ok
          ex_template_path ex_data_path ex_save_path (ex_world ex_template ex_data))
     = Inr (False, Some (failure_prefix @ str_exn ex_encode_error))
   \<and> (\<exists>wb. files (snd (process_excel_core ex_sink_done ex_lib ex_ox ex_save_ok
          ex_template_path ex_data_path ex_save_path (ex_world ex_template ex_data))) ex_save_path
         = Some (File (Inr []) (Inr wb)))"
proof -
  obtain ws1 ws2 where p: "clean_template ex_ox ex_template_sheet = Inr ws1"
    "fill_template ex_ox ws1 [ex_row_a, ex_row_d] = Inr ws2"
    by (rule ex_prepared)
  obtain w1 where w1: "df_combined_of ex_sink_done ex_lib ex_data (ex_world ex_template ex_data)
      = (Inr [ex_row_a, ex_row_d], w1)" "files w1 = files (ex_world ex_template ex_data)"
    using ex_df_combined_done [of "ex_world ex_template ex_data"]
    by (cases "df_combined_of ex_sink_done ex_lib ex_data (ex_world ex_template ex_data)") auto
  show ?thesis
    using w1 p
    by (simp add: process_excel_core_def process_excel_try_def ex_world_files py_bind_def
        py_return_def py_lift_def wb_save_def log_callback_def ex_sink_done_simps
        ex_template_loads ex_save_ok_def Let_def)
qed

text \<open>
  Claim C6 fails on the code. A shipment row of the target region with a date and time in
  the customer column is written to row 2: the run succeeds, and in the saved workbook the
  cell of column 8 has the number format \<open>yyyy-mm-dd h:mm:ss\<close>, where the template has
  \<open>General\<close>. Column 8 is not one of the five columns whose format the program assigns.
\<close>

theorem text_column_format_changes:
  "\<exists>wb ws.
     fst (process_excel_core ex_sink_quiet ex_lib ex_ox ex_save_ok
            ex_template_path ex_data_path ex_save_path (ex_world ex_template ex_data_dated))
       = Inr (True, None)
   \<and> files (snd (process_excel_core ex_sink_quiet ex_lib ex_ox ex_save_ok
            ex_template_path ex_data_path ex_save_path (ex_world ex_template ex_data_dated)))
         ex_save_path
       = Some (File (Inr []) (Inr wb))
   \<and> wb target_sheet = Some ws
   \<and> xvalue (cells ws (2, 8)) = DateTime (2024, 1, 2) 28800000000000
   \<and> number_format (cells ws (2, 8)) = ascii ''yyyy-mm-dd h:mm:ss''
   \<and> number_format (cells ex_template_sheet (2, 8)) = ascii ''General''"
proof -
  obtain ws1 ws2 where p: "clean_template ex_ox ex_template_sheet = Inr ws1"
    "fill_template ex_ox ws1 [ex_row_t] = Inr ws2"
    by (rule ex_prepared)
  have ne: "[ex_row_t] \<noteq> []" by simp
  from core_reaches_save
         [where save = ex_save_ok and save_path = ex_save_path
            and w = "ex_world ex_template ex_data_dated",
          OF ex_sink_quiet_returns ex_world_files(1) ex_world_files(2)
             ex_combined_dated ne ex_template_loads p]
  have r: "fst (process_excel_core ex_sink_quiet ex_lib ex_ox ex_save_ok
            ex_template_path ex_data_path ex_save_path (ex_world ex_template ex_data_dated))
       = Inr (True, None)"
    "files (snd (process_excel_core ex_sink_quiet ex_lib ex_ox ex_save_ok
            ex_template_path ex_data_path ex_save_path (ex_world ex_template ex_data_dated)))
         ex_save_path
       = Some (File (Inr []) (Inr (ex_workbook(target_sheet \<mapsto> ws2))))"
    by (simp_all add: ex_save_ok_def)
  have c: "cells ws2 (2, 8) = written_cell ex_ox ex_row_t 8 (cells ws1 (2, 8))"
    using cells_fill_template [OF p(2), of 2 8] by simp
  have d: "cells ws1 (2, 8) = (cells ex_template_sheet (2, 8))\<lparr>xvalue := Null\<rparr>"
    using cells_clean_template [OF p(1), of 2 8]
    by (simp add: ex_template_sheet_def clean_columns_def)
  have "xvalue (cells ws2 (2, 8)) = DateTime (2024, 1, 2) 28800000000000"
    "number_format (cells ws2 (2, 8)) = ascii ''yyyy-mm-dd h:mm:ss''"
    "number_format (cells ex_template_sheet (2, 8)) = ascii ''General''"
    by (simp_all add: c d written_cell_def bind_value_def ex_row_t_def ex_template_sheet_def
        ex_ox_def iso_datetime_format_def ascii_def)
  with r show ?thesis by auto
qed

text \<open>The same run: the number format of a cell of column 8 differs from the template's.\<close>

theorem text_column_format_changes_witness:
  "\<exists>wb ws.
     files (snd (process_excel_core ex_sink_quiet ex_lib ex_ox ex_save_ok
            ex_template_path ex_data_path ex_save_path (ex_world ex_template ex_data_dated)))
         ex_save_path
       = Some (File (Inr []) (Inr wb))
   \<and> wb target_sheet = Some ws
   \<and> number_format (cells ws (2, 8)) \<noteq> number_format (cells ex_template_sheet (2, 8))"
proof -
  from text_column_format_changes obtain wb ws where
    h: "files (snd (process_excel_core ex_sink_quiet ex_lib ex_ox ex_save_ok
            ex_template_path ex_data_path ex_save_path (ex_world ex_template ex_data_dated)))
         ex_save_path
       = Some (File (Inr []) (Inr wb))"
       "wb target_sheet = Some ws"
       "number_format (cells ws (2, 8)) = ascii ''yyyy-mm-dd h:mm:ss''"
       "number_format (cells ex_template_sheet (2, 8)) = ascii ''General''"
    by blast
  have "ascii ''yyyy-mm-dd h:mm:ss'' \<noteq> ascii ''General''"
    by (simp add: ascii_def)
  with h show ?thesis by auto
qed

text \<open>
  The part of the frame that holds: a cell outside the eight columns, in row 1, or below
  both the old last row and the last written row, is the template's cell.
\<close>

lemma frame_outside_written_cells:
  assumes "clean_template ox ws = Inr ws1" and "fill_template ox ws1 df = Inr ws2"
    and "c \<notin> set clean_columns \<or> r < 2 \<or> (max_row ws < r \<and> length df + 1 < r)"
  shows "cells ws2 (r, c) = cells ws (r, c)"
  using assms(3)
  by (auto simp: cells_fill_template [OF assms(2)] cells_clean_template [OF assms(1)]
      written_cell_def clean_columns_def)

text \<open>
  Claim C7. The merged frame is the filtered shipment rows followed by the filtered
  backlog rows. When cleaning and filling the sheet raise nothing, row \<open>i\<close> of the merged
  frame (counted from 0) is in sheet row \<open>2 + i\<close>: region, customer and item description
  are the values of columns 4, 8 and 15; ship quantity, net weight, list price, tax rate
  and sign-off date are the values of columns 21, 24, 26, 43 and 45, and these five cells
  have the formats \<open>0.00\<close>, \<open>0.000\<close>, \<open>0.00\<close>, \<open>0.00%\<close> and \<open>yyyy/mm/dd\<close>.
\<close>

theorem rows_written_in_order:
  assumes "combined lib data = Inr df" and "i < length df"
    and "clean_template ox ws = Inr ws1" and "fill_template ox ws1 df = Inr ws2"
  shows "(\<exists>xl ship_name delay_name df_ship df_delay S D.
           excel_file data = Inr xl \<and>
           first_match ship_marker (map fst xl) = Inr ship_name \<and>
           first_match delay_marker (map fst xl) = Inr delay_name \<and>
           read_excel xl ship_name = Inr df_ship \<and>
           read_excel xl delay_name = Inr df_delay \<and>
           ship_zhoushan lib df_ship = Inr S \<and>
           delay_zhoushan lib df_delay = Inr D \<and>
           df = S @ D)
       \<and> xvalue (cells ws2 (2 + i, 4)) = region (df ! i)
       \<and> xvalue (cells ws2 (2 + i, 8)) = customer (df ! i)
       \<and> xvalue (cells ws2 (2 + i, 15)) = item_description (df ! i)
       \<and> xvalue (cells ws2 (2 + i, 21)) = ship_quantity (df ! i)
       \<and> number_format (cells ws2 (2 + i, 21)) = ascii ''0.00''
       \<and> xvalue (cells ws2 (2 + i, 24)) = net_weight (df ! i)
       \<and> number_format (cells ws2 (2 + i, 24)) = ascii ''0.000''
       \<and> xvalue (cells ws2 (2 + i, 26)) = list_price (df ! i)
       \<and> number_format (cells ws2 (2 + i, 26)) = ascii ''0.00''
       \<and> xvalue (cells ws2 (2 + i, 43)) = tax_rate (df ! i)
       \<and> number_format (cells ws2 (2 + i, 43)) = ascii ''0.00%''
       \<and> xvalue (cells ws2 (2 + i, 45)) = signoff_date (df ! i)
       \<and> number_format (cells ws2 (2 + i, 45)) = ascii ''yyyy/mm/dd''"
  using combined_concat [OF assms(1)] assms(2)
  by (simp add: cells_fill_template [OF assms(4)] written_cell_def bind_value_def)

text \<open>
  The example: cleaning and filling succeed; the shipment row is in sheet row 2, the
  backlog row in sheet row 3.
\<close>

theorem rows_written_in_order_witness:
  "\<exists>ws1 ws2.
     clean_template ex_ox ex_template_sheet = Inr ws1
   \<and> fill_template ex_ox ws1 [ex_row_a, ex_row_d] = Inr ws2
   \<and> xvalue (cells ws2 (2, 21)) = Num (21 / 2)
   \<and> number_format (cells ws2 (2, 21)) = ascii ''0.00''
   \<and> xvalue (cells ws2 (2, 45)) = DateTime (2024, 1, 2) 0
   \<and> number_format (cells ws2 (2, 45)) = ascii ''yyyy/mm/dd''
   \<and> xvalue (cells ws2 (3, 8)) = Str (ascii ''D'')
   \<and> xvalue (cells ws2 (3, 45)) = Null
   \<and> number_format (cells ws2 (3, 45)) = ascii ''yyyy/mm/dd''"
proof -
  obtain ws1 ws2 where p: "clean_template ex_ox ex_template_sheet = Inr ws1"
    "fill_template ex_ox ws1 [ex_row_a, ex_row_d] = Inr ws2"
    by (rule ex_prepared)
  from rows_written_in_order [OF ex_combined _ p, of 0]
       rows_written_in_order [OF ex_combined _ p, of 1]
  have "xvalue (cells ws2 (2, 21)) = Num (21 / 2)
   \<and> number_format (cells ws2 (2, 21)) = ascii ''0.00''
   \<and> xvalue (cells ws2 (2, 45)) = DateTime (2024, 1, 2) 0
   \<and> number_format (cells ws2 (2, 45)) = ascii ''yyyy/mm/dd''
   \<and> xvalue (cells ws2 (3, 8)) = Str (ascii ''D'')
   \<and> xvalue (cells ws2 (3, 45)) = Null
   \<and> number_format (cells ws2 (3, 45)) = ascii ''yyyy/mm/dd''"
    by (simp add: ex_row_a_def ex_row_d_def)
  with p show ?thesis by blast
qed


end
